theory Spec2Isabelle
  imports Main "HOL-Library.Word"
begin

section \<open>Data model\<close>

text \<open>
  The program is a Python script that calls procedures of the ILE environment through
  the PASE system calls of \<^verbatim>\<open>libc\<close>, converts every codepoint of an EBCDIC
  code page to UTF-16 and writes reports. Python exceptions are values of
  \<open>py_error\<close>; a function that can raise returns \<open>py_error + 'a\<close> together with
  the state it leaves behind.
\<close>

type_synonym byte = "8 word"
type_synonym bytes = "byte list"

datatype py_error =
    OSError string
  | RuntimeError string
  | TypeError
  | ValueError
  | UnicodeDecodeError
  | OverflowError
  | AttributeError
  | UnboundLocalError

text \<open>\<^verbatim>\<open>class ILEPointer(Structure)\<close>: two 64-bit lanes.\<close>

record ILEPointer =
  hi :: "64 word"
  lo :: "64 word"

text \<open>\<^verbatim>\<open>class qtqcode_t(Structure)\<close>: the fields are C ints.\<close>

record qtqcode_t =
  ccsid :: "32 word"
  conversion_alternative :: "32 word"
  substitution_alternative :: "32 word"
  shift_state_alternative :: "32 word"
  input_length_option :: "32 word"
  mixed_data_error_option :: "32 word"

text \<open>\<^verbatim>\<open>class iconv_t(Structure)\<close>: a return code and twelve ints.\<close>

record iconv_t =
  rtn :: "32 word"
  cd :: "32 word list"

definition ILELOAD_LIBOBJ :: nat where "ILELOAD_LIBOBJ = 0x00000001"
definition ILESYM_PROCEDURE :: int where "ILESYM_PROCEDURE = 1"
definition ILECALL_EXCP_NOSIGNAL :: nat where "ILECALL_EXCP_NOSIGNAL = 0x00000020"
definition RSLOBJ_TS_PGM :: nat where "RSLOBJ_TS_PGM = 0x0201"
definition PGMCALL_EXCP_NOSIGNAL :: nat where "PGMCALL_EXCP_NOSIGNAL = 0x00000020"
definition RESULT_INT32 :: int where "RESULT_INT32 = - 5"
definition RESULT_UINT32 :: int where "RESULT_UINT32 = - 6"
definition ARG_END :: int where "ARG_END = 0"
definition ARG_MEMPTR :: int where "ARG_MEMPTR = - 11"

text \<open>\<^verbatim>\<open>sizeof(cd)\<close> for an \<open>iconv_t\<close>: thirteen C ints.\<close>

definition sizeof_iconv_t :: int where "sizeof_iconv_t = 52"

subsection \<open>The foreign side\<close>

text \<open>
  Local addresses are not modelled: an argument that the source passes by address is
  represented by the value stored there, and what the foreign side writes through such
  an address is returned as the memory after the call. A byte buffer that the foreign
  side fills is returned as a function from offsets to bytes, so the buffer keeps the
  length the source gave it. \<^verbatim>\<open>_SETSPP\<close>, which only makes a tagged pointer from a
  local address, has no counterpart.

  The argument lists of the four bridged procedures: the base alone (\<open>__errno\<close>),
  \<open>IconvOpenArglist\<close> with the two records that \<open>to_code\<close> and \<open>from_code\<close> point
  to, \<open>IconvCloseArglist\<close>, and \<open>IconvArglist\<close> with the descriptor, the input
  buffer, the input length and the output length (the output buffer is fresh).
\<close>

datatype ile_args =
    ILEArglistBase
  | IconvOpenArglist qtqcode_t qtqcode_t
  | IconvCloseArglist iconv_t
  | IconvArglist iconv_t bytes "32 word" "32 word"

text \<open>
  Local memory after \<open>_ILECALLX\<close>: the \<open>hi\<close> lane of the result slot, the object
  that the \<open>lo\<close> lane of the result slot designates (read as an \<open>ILEPointer\<close> by
  \<open>get_ile_errno\<close> and as an \<open>iconv_t\<close> by \<open>iconv_open\<close>), the output buffer
  and the output length of \<open>iconv\<close>.
\<close>

record ile_mem =
  result_hi :: "64 word"
  result_ptr :: ILEPointer
  result_cd :: iconv_t
  out_buf :: "nat \<Rightarrow> byte"
  out_len :: "32 word"

text \<open>Local memory after \<open>_PGMCALL\<close> of \<open>QTQGESP\<close>: \<open>es\<close> and the array \<open>fb\<close>.\<close>

record pgm_mem =
  es_val :: "32 word"
  fb_val :: "nat \<Rightarrow> 32 word"

text \<open>
  The system calls and the \<open>unicodedata\<close> module are parameters. Every system call
  takes the state \<open>'w\<close> of the foreign environment and returns the new one.
  \<open>MEMCPY_WT2 src n\<close> returns the destination buffer after the copy.
  \<open>unicodedata_name\<close> is \<open>None\<close> where \<^verbatim>\<open>unicodedata.name\<close> raises
  \<open>ValueError\<close> (a single character with no name).
\<close>

record 'w env =
  ILELOADX :: "string \<Rightarrow> nat \<Rightarrow> 'w \<Rightarrow> 64 word \<times> 'w"
  ILESYMX :: "64 word \<Rightarrow> string \<Rightarrow> 'w \<Rightarrow> (int \<times> ILEPointer) \<times> 'w"
  RSLOBJ2 :: "nat \<Rightarrow> string \<Rightarrow> string \<Rightarrow> 'w \<Rightarrow> (int \<times> ILEPointer) \<times> 'w"
  ILECALLX :: "ILEPointer \<Rightarrow> ile_args \<Rightarrow> int list \<Rightarrow> int \<Rightarrow> nat \<Rightarrow> 'w \<Rightarrow> (int \<times> ile_mem) \<times> 'w"
  PGMCALL :: "ILEPointer \<Rightarrow> 32 word \<Rightarrow> 32 word \<Rightarrow> 32 word \<Rightarrow> nat \<Rightarrow> 'w \<Rightarrow> (int \<times> pgm_mem) \<times> 'w"
  MEMCPY_WT2 :: "ILEPointer \<Rightarrow> nat \<Rightarrow> 'w \<Rightarrow> (nat \<Rightarrow> byte) \<times> 'w"
  unicodedata_name :: "nat \<Rightarrow> string option"
  unicodedata_category :: "nat \<Rightarrow> string"

text \<open>The system calls made so far are recorded, with their arguments.\<close>

datatype event =
    Ev_ILELOADX string nat
  | Ev_ILESYMX "64 word" string
  | Ev_RSLOBJ2 nat string string
  | Ev_ILECALLX ILEPointer ile_args "int list" int nat
  | Ev_PGMCALL ILEPointer "32 word" nat
  | Ev_MEMCPY_WT2 ILEPointer nat

text \<open>
  The five functions that keep a resolved pointer in their own attribute \<open>ptr\<close>
  (\<^verbatim>\<open>get_ile_errno.ptr\<close> and so on).
\<close>

datatype func = F_get_ile_errno | F_iconv_open | F_iconv_close | F_iconv | F_get_encoding_scheme

text \<open>
  An item printed to a file: a line of text, one of the static markup blocks of the
  HTML report, the opening of row \<open>i\<close> with its header cell, the cell of a character
  (its markup is a function of the character and its category), the end of a row.
\<close>

datatype item =
    Line string
  | Html_Style
  | Html_Table_Head
  | Html_Table_End
  | Html_Row_Open nat
  | Html_Cell nat string
  | Html_Row_Close

record 'w state =
  world :: 'w
  trace :: "event list"
  ptr_attr :: "func \<Rightarrow> ILEPointer option"
  stdout :: "string list"
  files :: "string \<Rightarrow> item list option"

section \<open>Symbol resolution\<close>

definition syscall :: "event \<Rightarrow> 'w \<Rightarrow> 'w state \<Rightarrow> 'w state" where
  "syscall ev w s = s\<lparr>world := w, trace := trace s @ [ev]\<rparr>"

definition load_symbol ::
  "'w env \<Rightarrow> string \<Rightarrow> string \<Rightarrow> string \<Rightarrow> 'w state \<Rightarrow> (py_error + ILEPointer) \<times> 'w state" where
  "load_symbol env library srvpgm symbol s =
     (let obj = library @ ''/'' @ srvpgm;
          (actgrp, w1) = ILELOADX env obj ILELOAD_LIBOBJ (world s);
          s1 = syscall (Ev_ILELOADX obj ILELOAD_LIBOBJ) w1 s
      in if actgrp = 0xffffffffffffffff then (Inl (OSError (obj @ '' not found'')), s1)
         else
           let ((kind, ptr), w2) = ILESYMX env actgrp symbol (world s1);
               s2 = syscall (Ev_ILESYMX actgrp symbol) w2 s1
           in if kind \<noteq> ILESYM_PROCEDURE
              then (Inl (OSError (symbol @ '' procedure not found in '' @ obj)), s2)
              else (Inr ptr, s2))"

text \<open>
  The pattern at the head of each bridged function:
  \<^verbatim>\<open>try: ptr = f.ptr
  except AttributeError: ptr = f.ptr = load_symbol(library, srvpgm, symbol)\<close>
  The attribute is assigned only when \<open>load_symbol\<close> returns.
\<close>

definition cached_ptr ::
  "'w env \<Rightarrow> func \<Rightarrow> string \<Rightarrow> string \<Rightarrow> string \<Rightarrow> 'w state \<Rightarrow> (py_error + ILEPointer) \<times> 'w state" where
  "cached_ptr env f library srvpgm symbol s =
     (case ptr_attr s f of
        Some ptr \<Rightarrow> (Inr ptr, s)
      | None \<Rightarrow>
          (case load_symbol env library srvpgm symbol s of
             (Inl e, s1) \<Rightarrow> (Inl e, s1)
           | (Inr ptr, s1) \<Rightarrow> (Inr ptr, s1\<lparr>ptr_attr := (ptr_attr s1)(f \<mapsto> ptr)\<rparr>)))"

section \<open>Bytes, hexadecimal text and integers\<close>

definition hexdigit :: "nat \<Rightarrow> char" where
  "hexdigit n = ''0123456789abcdef'' ! n"

text \<open>\<^verbatim>\<open>bytes.hex()\<close>: two lower-case digits for each byte.\<close>

definition bytes_hex :: "bytes \<Rightarrow> string" where
  "bytes_hex bs = concat (map (\<lambda>b. [hexdigit (unat b div 16), hexdigit (unat b mod 16)]) bs)"

text \<open>
  \<^verbatim>\<open>int(s, 16)\<close> on a string of hexadecimal digits; \<open>None\<close> is \<open>ValueError\<close>
  (the empty string, or a character that is no digit). Signs, prefixes, underscores and
  blanks, which Python also accepts, do not occur in the output of \<open>bytes_hex\<close>.
\<close>

definition hex_digit_val :: "char \<Rightarrow> nat option" where
  "hex_digit_val c =
     (let n = (of_char c :: nat)
      in if 48 \<le> n \<and> n \<le> 57 then Some (n - 48)
         else if 97 \<le> n \<and> n \<le> 102 then Some (n - 87)
         else if 65 \<le> n \<and> n \<le> 70 then Some (n - 55)
         else None)"

fun int16_acc :: "nat \<Rightarrow> string \<Rightarrow> nat option" where
  "int16_acc acc [] = Some acc"
| "int16_acc acc (c # cs) =
     (case hex_digit_val c of None \<Rightarrow> None | Some d \<Rightarrow> int16_acc (acc * 16 + d) cs)"

definition py_int16 :: "string \<Rightarrow> nat option" where
  "py_int16 s = (if s = [] then None else int16_acc 0 s)"

text \<open>\<^verbatim>\<open>xs[:k]\<close>: a negative bound counts from the end.\<close>

definition py_slice_to :: "'a list \<Rightarrow> int \<Rightarrow> 'a list" where
  "py_slice_to xs k = (if k < 0 then take (nat (int (length xs) + k)) xs else take (nat k) xs)"

text \<open>\<^verbatim>\<open>n.to_bytes(size, byteorder='big')\<close>, which raises when \<open>n\<close> does not fit.\<close>

fun be_bytes :: "nat \<Rightarrow> nat \<Rightarrow> bytes" where
  "be_bytes 0 n = []"
| "be_bytes (Suc k) n = be_bytes k (n div 256) @ [of_nat (n mod 256)]"

definition to_bytes_big :: "nat \<Rightarrow> nat \<Rightarrow> py_error + bytes" where
  "to_bytes_big n sz = (if n < 256 ^ sz then Inr (be_bytes sz n) else Inl OverflowError)"

section \<open>The bridged procedures\<close>

definition get_ile_errno :: "'w env \<Rightarrow> 'w state \<Rightarrow> (py_error + nat) \<times> 'w state" where
  "get_ile_errno env s =
     (case cached_ptr env F_get_ile_errno ''QSYS'' ''QC2UTIL1'' ''__errno'' s of
        (Inl e, s1) \<Rightarrow> (Inl e, s1)
      | (Inr ptr, s1) \<Rightarrow>
          let arglist = ILEArglistBase;
              signature = [ARG_END];
              ((rc, m), w2) = ILECALLX env ptr arglist signature 16 ILECALL_EXCP_NOSIGNAL (world s1);
              s2 = syscall (Ev_ILECALLX ptr arglist signature 16 ILECALL_EXCP_NOSIGNAL) w2 s1
          in if rc \<noteq> 0
             then (Inl (RuntimeError ''Failed to call QtqIconvOpen with _ILECALL''), s2)
             else
               let errnop = result_ptr m;
                   (buf, w3) = MEMCPY_WT2 env errnop 4 (world s2);
                   s3 = syscall (Ev_MEMCPY_WT2 errnop 4) w3 s2;
                   errno_buf = map buf [0..<4]
               in (case py_int16 (bytes_hex errno_buf) of
                     None \<Rightarrow> (Inl ValueError, s3)
                   | Some n \<Rightarrow> (Inr n, s3)))"

definition make_qtqcode_t :: "int \<Rightarrow> qtqcode_t" where
  "make_qtqcode_t c =
     \<lparr>ccsid = word_of_int c, conversion_alternative = 0, substitution_alternative = 0,
      shift_state_alternative = 0, input_length_option = 0, mixed_data_error_option = 0\<rparr>"

definition iconv_open :: "'w env \<Rightarrow> int \<Rightarrow> int \<Rightarrow> 'w state \<Rightarrow> (py_error + iconv_t) \<times> 'w state" where
  "iconv_open env out_ccsid in_ccsid s =
     (case cached_ptr env F_iconv_open ''QSYS'' ''QTQICONV'' ''QtqIconvOpen'' s of
        (Inl e, s1) \<Rightarrow> (Inl e, s1)
      | (Inr ptr, s1) \<Rightarrow>
          let to_code = make_qtqcode_t out_ccsid;
              from_code = make_qtqcode_t in_ccsid;
              arglist = IconvOpenArglist to_code from_code;
              signature = [ARG_MEMPTR, ARG_MEMPTR, ARG_END];
              ((rc, m), w2) =
                 ILECALLX env ptr arglist signature sizeof_iconv_t ILECALL_EXCP_NOSIGNAL (world s1);
              s2 = syscall (Ev_ILECALLX ptr arglist signature sizeof_iconv_t ILECALL_EXCP_NOSIGNAL) w2 s1
          in if rc \<noteq> 0
             then (Inl (RuntimeError ''Failed to call QtqIconvOpen with _ILECALL''), s2)
             else (Inr (result_cd m), s2))"

definition iconv_close :: "'w env \<Rightarrow> iconv_t \<Rightarrow> 'w state \<Rightarrow> (py_error + 64 word) \<times> 'w state" where
  "iconv_close env d s =
     (case cached_ptr env F_iconv_close ''QSYS'' ''QTQICONV'' ''iconv_close'' s of
        (Inl e, s1) \<Rightarrow> (Inl e, s1)
      | (Inr ptr, s1) \<Rightarrow>
          let arglist = IconvCloseArglist d;
              signature = [sizeof_iconv_t, ARG_END];
              ((rc, m), w2) =
                 ILECALLX env ptr arglist signature RESULT_INT32 ILECALL_EXCP_NOSIGNAL (world s1);
              s2 = syscall (Ev_ILECALLX ptr arglist signature RESULT_INT32 ILECALL_EXCP_NOSIGNAL) w2 s1
          in if rc \<noteq> 0
             then (Inl (RuntimeError ''Failed to call iconv_close with _ILECALL''), s2)
             else (Inr (result_hi m), s2))"

text \<open>
  \<open>iconv\<close>: \<^verbatim>\<open>create_string_buffer(data)\<close> holds the data and a terminating zero
  byte; the output buffer has \<^verbatim>\<open>out_len.value\<close>, that is 8, bytes.
\<close>

definition iconv_signature :: "int list" where
  "iconv_signature = [sizeof_iconv_t, ARG_MEMPTR, ARG_MEMPTR, ARG_MEMPTR, ARG_MEMPTR, ARG_END]"

definition iconv :: "'w env \<Rightarrow> iconv_t \<Rightarrow> bytes \<Rightarrow> 'w state \<Rightarrow> (py_error + 64 word \<times> bytes) \<times> 'w state" where
  "iconv env d data s =
     (case cached_ptr env F_iconv ''QSYS'' ''QTQICONV'' ''iconv'' s of
        (Inl e, s1) \<Rightarrow> (Inl e, s1)
      | (Inr ptr, s1) \<Rightarrow>
          let in_len = (of_nat (length data) :: 32 word);
              in_buf = data @ [0];
              out_len0 = (8 :: 32 word);
              arglist = IconvArglist d in_buf in_len out_len0;
              ((rc, m), w2) = ILECALLX env ptr arglist iconv_signature RESULT_UINT32 0 (world s1);
              s2 = syscall (Ev_ILECALLX ptr arglist iconv_signature RESULT_UINT32 0) w2 s1
          in if rc \<noteq> 0
             then (Inl (RuntimeError ''Failed to call iconv with _ILECALL''), s2)
             else
               let raw = map (out_buf m) [0..<unat out_len0];
                   out_size = int (length raw) - int (unat (out_len m))
               in (Inr (result_hi m, py_slice_to raw out_size), s2))"

text \<open>
  \<open>get_encoding_scheme\<close> resolves the program \<open>QTQGESP\<close> itself; the attribute is
  assigned only after \<open>_RSLOBJ2\<close> has returned zero.
\<close>

definition resolve_qtqgesp :: "'w env \<Rightarrow> 'w state \<Rightarrow> (py_error + ILEPointer) \<times> 'w state" where
  "resolve_qtqgesp env s =
     (case ptr_attr s F_get_encoding_scheme of
        Some ptr \<Rightarrow> (Inr ptr, s)
      | None \<Rightarrow>
          let ((rc, ptr), w1) = RSLOBJ2 env RSLOBJ_TS_PGM ''QTQGESP'' ''QSYS'' (world s);
              s1 = syscall (Ev_RSLOBJ2 RSLOBJ_TS_PGM ''QTQGESP'' ''QSYS'') w1 s
          in if rc \<noteq> 0 then (Inl (OSError ''Error resolving QTQGESP''), s1)
             else (Inr ptr, s1\<lparr>ptr_attr := (ptr_attr s1)(F_get_encoding_scheme \<mapsto> ptr)\<rparr>))"

definition get_encoding_scheme :: "'w env \<Rightarrow> int \<Rightarrow> 'w state \<Rightarrow> (py_error + int) \<times> 'w state" where
  "get_encoding_scheme env c s =
     (case resolve_qtqgesp env s of
        (Inl e, s1) \<Rightarrow> (Inl e, s1)
      | (Inr ptr, s1) \<Rightarrow>
          let ccsid1 = (word_of_int c :: 32 word);
              n1 = (2 :: 32 word);
              n2 = (0 :: 32 word);
              ((rc, m), w2) = PGMCALL env ptr ccsid1 n1 n2 PGMCALL_EXCP_NOSIGNAL (world s1);
              s2 = syscall (Ev_PGMCALL ptr ccsid1 PGMCALL_EXCP_NOSIGNAL) w2 s1
          in if rc \<noteq> 0 then (Inl (OSError ''_PGMCALL''), s2)
             else
               let fb = map (fb_val m) [0..<3]
               in if list_ex (\<lambda>x. x \<noteq> 0) fb then (Inr (- 1), s2)
                  else (Inr (sint (es_val m)), s2))"

section \<open>The table builder\<close>

text \<open>
  The loop of \<open>dump_conv_table\<close> over \<^verbatim>\<open>range(max_cp)\<close>. The table starts as
  \<^verbatim>\<open>[None] * max_cp\<close> and receives one entry for each codepoint.
\<close>

fun conv_loop ::
  "'w env \<Rightarrow> iconv_t \<Rightarrow> nat \<Rightarrow> nat list \<Rightarrow> bytes option list \<Rightarrow> 'w state
   \<Rightarrow> (py_error + bytes option list) \<times> 'w state" where
  "conv_loop env d cp_size [] table s = (Inr table, s)"
| "conv_loop env d cp_size (cp # cps) table s =
     (case to_bytes_big cp cp_size of
        Inl e \<Rightarrow> (Inl e, s)
      | Inr data \<Rightarrow>
          (case iconv env d data s of
             (Inl e, s1) \<Rightarrow> (Inl e, s1)
           | (Inr (rc, out), s1) \<Rightarrow> conv_loop env d cp_size cps (table[cp := Some out]) s1))"

definition print_stdout :: "string \<Rightarrow> 'w state \<Rightarrow> 'w state" where
  "print_stdout l s = s\<lparr>stdout := stdout s @ [l]\<rparr>"

definition dump_conv_table ::
  "'w env \<Rightarrow> int \<Rightarrow> int \<Rightarrow> 'w state \<Rightarrow> (py_error + bytes option list option) \<times> 'w state" where
  "dump_conv_table env c es s =
     (case iconv_open env 1200 c s of
        (Inl e, s1) \<Rightarrow> (Inl e, s1)
      | (Inr d, s1) \<Rightarrow>
          if sint (rtn d) = - 1 then (Inr None, print_stdout ''Couldn't open converter'' s1)
          else
            let (max_cp, cp_size) = (if es = 0x1100 then (256, 1) else (65536, 2));
                table = replicate max_cp None
            in (case conv_loop env d cp_size [0..<max_cp] table s1 of
                  (Inl e, s2) \<Rightarrow> (Inl e, s2)
                | (Inr table', s2) \<Rightarrow>
                    (case iconv_close env d s2 of
                       (Inl e, s3) \<Rightarrow> (Inl e, s3)
                     | (Inr v, s3) \<Rightarrow> (Inr (Some table'), s3))))"

section \<open>The report writers\<close>

text \<open>
  A Python \<open>str\<close> is a list of code points. \<^verbatim>\<open>bytes.decode('utf-16be')\<close>
  reads two bytes for each code unit; a high surrogate needs a low surrogate after it.
  \<open>None\<close> is \<open>UnicodeDecodeError\<close>: an odd byte at the end, a low surrogate with
  no high surrogate before it, a high surrogate with no low surrogate after it.
\<close>

fun utf16be_decode :: "bytes \<Rightarrow> nat list option" where
  "utf16be_decode [] = Some []"
| "utf16be_decode [b] = None"
| "utf16be_decode (b1 # b2 # rest) =
     (let ch = unat b1 * 256 + unat b2
      in if ch < 0xD800 \<or> 0xDFFF < ch then map_option ((#) ch) (utf16be_decode rest)
         else if ch \<le> 0xDBFF
         then (case rest of
                 c1 # c2 # rest' \<Rightarrow>
                   (let ch2 = unat c1 * 256 + unat c2
                    in if 0xDC00 \<le> ch2 \<and> ch2 \<le> 0xDFFF
                       then map_option ((#) (0x10000 + (ch - 0xD800) * 1024 + (ch2 - 0xDC00)))
                              (utf16be_decode rest')
                       else None)
               | _ \<Rightarrow> None)
         else None)"

text \<open>
  \<^verbatim>\<open>unicodedata.name(u)\<close> and \<^verbatim>\<open>unicodedata.category(u)\<close> need a string of
  one character and raise \<open>TypeError\<close> on any other.
\<close>

definition py_name :: "'w env \<Rightarrow> nat list \<Rightarrow> py_error + string" where
  "py_name env u =
     (case u of
        [c] \<Rightarrow> (case unicodedata_name env c of None \<Rightarrow> Inl ValueError | Some n \<Rightarrow> Inr n)
      | _ \<Rightarrow> Inl TypeError)"

definition py_category :: "'w env \<Rightarrow> nat list \<Rightarrow> py_error + string" where
  "py_category env u = (case u of [c] \<Rightarrow> Inr (unicodedata_category env c) | _ \<Rightarrow> Inl TypeError)"

text \<open>\<open>UnicodeDecodeError\<close> is a subclass of \<open>ValueError\<close>.\<close>

definition is_ValueError :: "py_error \<Rightarrow> bool" where
  "is_ValueError e = (e = ValueError \<or> e = UnicodeDecodeError)"

text \<open>
  The body of the \<^verbatim>\<open>try\<close> of \<open>write_conv_txt\<close>. The variable \<open>u\<close> is local to
  the function, not to the iteration: it is unbound (\<open>None\<close>) until a decode returns,
  and keeps its value from one entry to the next. An entry that is Python's \<open>None\<close>
  has no \<open>decode\<close>.
\<close>

definition txt_try :: "'w env \<Rightarrow> nat list option \<Rightarrow> bytes option \<Rightarrow> (py_error + string) \<times> nat list option" where
  "txt_try env u out =
     (case out of
        None \<Rightarrow> (Inl AttributeError, u)
      | Some bs \<Rightarrow>
          (case utf16be_decode bs of
             None \<Rightarrow> (Inl UnicodeDecodeError, u)
           | Some u' \<Rightarrow> (py_name env u', Some u')))"

text \<open>The handler \<^verbatim>\<open>except ValueError\<close>, which reads \<open>u\<close>.\<close>

definition txt_except_ValueError :: "'w env \<Rightarrow> nat list option \<Rightarrow> py_error + string" where
  "txt_except_ValueError env u =
     (case u of
        None \<Rightarrow> Inl UnboundLocalError
      | Some u' \<Rightarrow>
          (case py_category env u' of
             Inl e \<Rightarrow> Inl e
           | Inr category \<Rightarrow> Inr (if category = ''Cc'' then ''<control>'' else ''<unknown>'')))"

text \<open>
  The \<^verbatim>\<open>try\<close> statement: the handlers are tried in the order of the source,
  \<^verbatim>\<open>except ValueError\<close> before \<^verbatim>\<open>except UnicodeDecodeError\<close>.
\<close>

definition txt_name :: "'w env \<Rightarrow> nat list option \<Rightarrow> bytes option \<Rightarrow> (py_error + string) \<times> nat list option" where
  "txt_name env u out =
     (case txt_try env u out of
        (Inr name, u1) \<Rightarrow> (Inr name, u1)
      | (Inl e, u1) \<Rightarrow>
          if is_ValueError e then (txt_except_ValueError env u1, u1)
          else if e = UnicodeDecodeError then (Inr ''<error>'', u1)
          else (Inl e, u1))"

text \<open>
  \<^verbatim>\<open>format(n, 'x')\<close>, \<^verbatim>\<open>format(n, 'd')\<close> and their zero-padded forms:
  the digits of \<open>n\<close> in base \<open>b\<close>, which is 16 or 10.
\<close>

fun nat_digits :: "nat \<Rightarrow> nat \<Rightarrow> string" where
  "nat_digits b n =
     (if n < b \<or> b < 2 then [hexdigit n] else nat_digits b (n div b) @ [hexdigit (n mod b)])"

declare nat_digits.simps [simp del]

definition zero_pad :: "nat \<Rightarrow> string \<Rightarrow> string" where
  "zero_pad w t = replicate (w - length t) CHR ''0'' @ t"

definition format_x :: "nat \<Rightarrow> nat \<Rightarrow> string" where
  "format_x w n = zero_pad w (nat_digits 16 n)"

definition format_d :: "nat \<Rightarrow> nat \<Rightarrow> string" where
  "format_d w n = zero_pad w (nat_digits 10 n)"

text \<open>\<^verbatim>\<open>"0x{:02x}\t0x{}\t{}".format(cp, out.hex(), name)\<close>, of width 2 or 4.\<close>

definition fmt_str :: "nat \<Rightarrow> nat \<Rightarrow> string \<Rightarrow> string \<Rightarrow> string" where
  "fmt_str w cp h name = ''0x'' @ format_x w cp @ [CHR 0x09] @ ''0x'' @ h @ [CHR 0x09] @ name"

text \<open>
  The loop of \<open>write_conv_txt\<close> over \<^verbatim>\<open>enumerate(table)\<close>; the lines printed so
  far are returned also when an entry raises.
\<close>

fun txt_loop ::
  "'w env \<Rightarrow> nat \<Rightarrow> nat \<Rightarrow> bytes option list \<Rightarrow> nat list option \<Rightarrow> item list
   \<Rightarrow> (py_error + unit) \<times> item list" where
  "txt_loop env w cp [] u file = (Inr (), file)"
| "txt_loop env w cp (out # rest) u file =
     (case txt_name env u out of
        (Inl e, u1) \<Rightarrow> (Inl e, file)
      | (Inr name, u1) \<Rightarrow>
          (case out of
             None \<Rightarrow> (Inl AttributeError, file)
           | Some bs \<Rightarrow> txt_loop env w (Suc cp) rest u1 (file @ [Line (fmt_str w cp (bytes_hex bs) name)])))"

text \<open>\<^verbatim>\<open>len(table)\<close> raises \<open>TypeError\<close> when \<open>table\<close> is \<open>None\<close>.\<close>

definition write_conv_txt ::
  "'w env \<Rightarrow> bytes option list option \<Rightarrow> item list \<Rightarrow> (py_error + unit) \<times> item list" where
  "write_conv_txt env table file =
     (case table of
        None \<Rightarrow> (Inl TypeError, file)
      | Some t \<Rightarrow> txt_loop env (if length t = 256 then 2 else 4) 0 t None file)"

text \<open>
  \<open>write_conv_html\<close>: the cells of one row, the rows, and the whole. The decode and
  the category lookup of a cell are not inside any \<^verbatim>\<open>try\<close>.
\<close>

fun html_cells ::
  "'w env \<Rightarrow> bytes option list \<Rightarrow> nat list \<Rightarrow> item list \<Rightarrow> (py_error + unit) \<times> item list" where
  "html_cells env t [] file = (Inr (), file)"
| "html_cells env t (cp # cps) file =
     (case t ! cp of
        None \<Rightarrow> (Inl AttributeError, file)
      | Some bs \<Rightarrow>
          (case utf16be_decode bs of
             None \<Rightarrow> (Inl UnicodeDecodeError, file)
           | Some u \<Rightarrow>
               (case py_category env u of
                  Inl e \<Rightarrow> (Inl e, file)
                | Inr category \<Rightarrow> html_cells env t cps (file @ [Html_Cell (hd u) category]))))"

fun html_rows ::
  "'w env \<Rightarrow> bytes option list \<Rightarrow> nat list \<Rightarrow> item list \<Rightarrow> (py_error + unit) \<times> item list" where
  "html_rows env t [] file = (Inr (), file)"
| "html_rows env t (i # rows) file =
     (case html_cells env t (map (\<lambda>j. i * 16 + j) [0..<16]) (file @ [Html_Row_Open i]) of
        (Inl e, file1) \<Rightarrow> (Inl e, file1)
      | (Inr _, file1) \<Rightarrow> html_rows env t rows (file1 @ [Html_Row_Close]))"

definition write_conv_html ::
  "'w env \<Rightarrow> bytes option list option \<Rightarrow> item list \<Rightarrow> (py_error + unit) \<times> item list" where
  "write_conv_html env table file =
     (case table of
        None \<Rightarrow> (Inl TypeError, file)
      | Some t \<Rightarrow>
          if length t \<noteq> 256 then (Inr (), file)
          else
            (case html_rows env t [0..<16] (file @ [Html_Style, Html_Table_Head]) of
               (Inl e, file1) \<Rightarrow> (Inl e, file1)
             | (Inr _, file1) \<Rightarrow> (Inr (), file1 @ [Html_Table_Head, Html_Table_End])))"

section \<open>The driver\<close>

text \<open>
  \<^verbatim>\<open>with open(name, 'w') as conv_file: write(table, conv_file)\<close>: the file is
  created empty, holds what was printed, and an exception of the writer leaves the
  \<^verbatim>\<open>with\<close> block. Opening the file is taken to succeed.
\<close>

definition with_open ::
  "string \<Rightarrow> (item list \<Rightarrow> (py_error + unit) \<times> item list) \<Rightarrow> 'w state \<Rightarrow> (py_error + unit) \<times> 'w state" where
  "with_open name writer s =
     (case writer [] of (r, content) \<Rightarrow> (r, s\<lparr>files := (files s)(name \<mapsto> content)\<rparr>))"

text \<open>The body of the loop \<^verbatim>\<open>for ccsid in range(1, 65535)\<close> at the end of the module.\<close>

definition driver_body :: "'w env \<Rightarrow> nat \<Rightarrow> 'w state \<Rightarrow> (py_error + unit) \<times> 'w state" where
  "driver_body env c s =
     (case get_encoding_scheme env (int c) s of
        (Inl e, s1) \<Rightarrow> (Inl e, s1)
      | (Inr es, s1) \<Rightarrow>
          if es \<notin> {0x1100, 0x1200} then (Inr (), s1)
          else if c \<in> {16684, 57777} then (Inr (), s1)
          else
            let s2 = print_stdout (''ccsid: '' @ format_d 0 c @ '' '' @ format_x 0 (nat es)) s1
            in (case dump_conv_table env (int c) es s2 of
                  (Inl e, s3) \<Rightarrow> (Inl e, s3)
                | (Inr table, s3) \<Rightarrow>
                    (case with_open (''IBM-'' @ format_d 3 c @ ''.txt'') (write_conv_txt env table) s3 of
                       (Inl e, s4) \<Rightarrow> (Inl e, s4)
                     | (Inr _, s4) \<Rightarrow>
                         if es \<noteq> 0x1200
                         then with_open (''IBM-'' @ format_d 3 c @ ''.html'') (write_conv_html env table) s4
                         else (Inr (), s4))))"

fun driver_loop :: "'w env \<Rightarrow> nat list \<Rightarrow> 'w state \<Rightarrow> (py_error + unit) \<times> 'w state" where
  "driver_loop env [] s = (Inr (), s)"
| "driver_loop env (c # cs) s =
     (case driver_body env c s of
        (Inl e, s1) \<Rightarrow> (Inl e, s1)
      | (Inr _, s1) \<Rightarrow> driver_loop env cs s1)"

definition driver :: "'w env \<Rightarrow> 'w state \<Rightarrow> (py_error + unit) \<times> 'w state" where
  "driver env s = driver_loop env [1..<65535] s"

section \<open>Notions used in the statements\<close>

text \<open>
  The value of a sequence of bytes read as a big-endian unsigned integer.
\<close>

fun be_val :: "nat \<Rightarrow> bytes \<Rightarrow> nat" where
  "be_val acc [] = acc" | "be_val acc (b # bs) = be_val (acc * 256 + unat b) bs"

text \<open>
  A call of one of the five functions that keep a resolved pointer, the function
  attribute it uses, and its run: the exception raised, if any, and the state after it.
\<close>

datatype call =
    Call_get_ile_errno
  | Call_iconv_open int int
  | Call_iconv_close iconv_t
  | Call_iconv iconv_t bytes
  | Call_get_encoding_scheme int

fun func_of :: "call \<Rightarrow> func" where
  "func_of Call_get_ile_errno = F_get_ile_errno"
| "func_of (Call_iconv_open out_ccsid in_ccsid) = F_iconv_open"
| "func_of (Call_iconv_close d) = F_iconv_close"
| "func_of (Call_iconv d data) = F_iconv"
| "func_of (Call_get_encoding_scheme c) = F_get_encoding_scheme"

definition outcome :: "(py_error + 'a) \<times> 's \<Rightarrow> py_error option \<times> 's" where
  "outcome r = (case r of (Inl e, s) \<Rightarrow> (Some e, s) | (Inr v, s) \<Rightarrow> (None, s))"

fun run :: "'w env \<Rightarrow> call \<Rightarrow> 'w state \<Rightarrow> py_error option \<times> 'w state" where
  "run env Call_get_ile_errno s = outcome (get_ile_errno env s)"
| "run env (Call_iconv_open out_ccsid in_ccsid) s = outcome (iconv_open env out_ccsid in_ccsid s)"
| "run env (Call_iconv_close d) s = outcome (iconv_close env d s)"
| "run env (Call_iconv d data) s = outcome (iconv env d data s)"
| "run env (Call_get_encoding_scheme c) s = outcome (get_encoding_scheme env c s)"

text \<open>
  The resolution that each of the five functions performs when its attribute is unset,
  with the arguments it has in the source, and the lookup that goes with it.
\<close>

fun resolve :: "'w env \<Rightarrow> func \<Rightarrow> 'w state \<Rightarrow> (py_error + ILEPointer) \<times> 'w state" where
  "resolve env F_get_ile_errno s = load_symbol env ''QSYS'' ''QC2UTIL1'' ''__errno'' s"
| "resolve env F_iconv_open s = load_symbol env ''QSYS'' ''QTQICONV'' ''QtqIconvOpen'' s"
| "resolve env F_iconv_close s = load_symbol env ''QSYS'' ''QTQICONV'' ''iconv_close'' s"
| "resolve env F_iconv s = load_symbol env ''QSYS'' ''QTQICONV'' ''iconv'' s"
| "resolve env F_get_encoding_scheme s =
     (case RSLOBJ2 env RSLOBJ_TS_PGM ''QTQGESP'' ''QSYS'' (world s) of
        ((rc, ptr), w1) \<Rightarrow>
          (if rc \<noteq> 0 then Inl (OSError ''Error resolving QTQGESP'') else Inr ptr,
           syscall (Ev_RSLOBJ2 RSLOBJ_TS_PGM ''QTQGESP'' ''QSYS'') w1 s))"

definition the_ptr :: "'w env \<Rightarrow> func \<Rightarrow> 'w state \<Rightarrow> (py_error + ILEPointer) \<times> 'w state" where
  "the_ptr env f s =
     (case ptr_attr s f of
        Some ptr \<Rightarrow> (Inr ptr, s)
      | None \<Rightarrow>
          (case resolve env f s of
             (Inl e, s1) \<Rightarrow> (Inl e, s1)
           | (Inr ptr, s1) \<Rightarrow> (Inr ptr, s1\<lparr>ptr_attr := (ptr_attr s1)(f \<mapsto> ptr)\<rparr>)))"

text \<open>
  The recorded system calls that load or resolve, the pointer through which a recorded
  call invokes a procedure or program, and the recorded calls of \<open>iconv\<close> and
  \<open>iconv_close\<close>.
\<close>

fun is_resolution :: "event \<Rightarrow> bool" where
  "is_resolution (Ev_ILELOADX obj flags) = True"
| "is_resolution (Ev_ILESYMX actgrp symbol) = True"
| "is_resolution (Ev_RSLOBJ2 t obj lib) = True"
| "is_resolution ev = False"

fun event_ptr :: "event \<Rightarrow> ILEPointer option" where
  "event_ptr (Ev_ILECALLX ptr a sg r fl) = Some ptr"
| "event_ptr (Ev_PGMCALL ptr c fl) = Some ptr"
| "event_ptr ev = None"

fun is_convert_or_close :: "event \<Rightarrow> bool" where
  "is_convert_or_close (Ev_ILECALLX ptr (IconvArglist d b n l) sg r fl) = True"
| "is_convert_or_close (Ev_ILECALLX ptr (IconvCloseArglist d) sg r fl) = True"
| "is_convert_or_close ev = False"

section \<open>A sample foreign side\<close>

text \<open>
  A foreign side on which every call succeeds: the converter writes a zero byte and the
  first input byte and leaves 6 of the 8 output bytes unused, the errno cell holds the
  bytes 1, 2, 3, 4. The state is the one the module starts in: no attribute is set.
\<close>

definition demo_ptr :: ILEPointer where
  "demo_ptr = \<lparr>hi = 0, lo = 0x1000\<rparr>"

definition demo_cd :: iconv_t where
  "demo_cd = \<lparr>rtn = 0, cd = replicate 12 0\<rparr>"

definition demo_mem :: "ile_args \<Rightarrow> ile_mem" where
  "demo_mem a =
     \<lparr>result_hi = 0, result_ptr = \<lparr>hi = 0, lo = 0x2000\<rparr>, result_cd = demo_cd,
      out_buf = (\<lambda>i. case a of IconvArglist d b n l \<Rightarrow> (if i = 1 then hd b else 0) | _ \<Rightarrow> 0),
      out_len = 6\<rparr>"

definition demo_env :: "unit env" where
  "demo_env =
     \<lparr>ILELOADX = (\<lambda>obj fl w. (1, w)),
      ILESYMX = (\<lambda>a y w. ((1, demo_ptr), w)),
      RSLOBJ2 = (\<lambda>t obj lib w. ((0, demo_ptr), w)),
      ILECALLX = (\<lambda>p a sg r fl w. ((0, demo_mem a), w)),
      PGMCALL = (\<lambda>p c n1 n2 fl w. ((0, \<lparr>es_val = 0x1100, fb_val = (\<lambda>i. 0)\<rparr>), w)),
      MEMCPY_WT2 = (\<lambda>src n w. ((\<lambda>i. of_nat (i + 1)), w)),
      unicodedata_name = (\<lambda>c. if c = 0x41 then Some ''LATIN CAPITAL LETTER A'' else None),
      unicodedata_category = (\<lambda>c. if c < 32 then ''Cc'' else ''Lu'')\<rparr>"

definition init_state :: "unit state" where
  "init_state = \<lparr>world = (), trace = [], ptr_attr = (\<lambda>f. None), stdout = [], files = (\<lambda>n. None)\<rparr>"

text \<open>
  Variants of it: every bridged call returns 1; the open call writes a descriptor whose
  \<open>rtn\<close> is -1; the probe writes a nonzero feedback element; no library can be
  loaded; the probe fails for identifier 1.
\<close>

definition failing_env :: "unit env" where
  "failing_env = demo_env\<lparr>ILECALLX := (\<lambda>p a sg r fl w. ((1, demo_mem a), w))\<rparr>"

definition no_converter_env :: "unit env" where
  "no_converter_env =
     demo_env\<lparr>ILECALLX := (\<lambda>p a sg r fl w. ((0, (demo_mem a)\<lparr>result_cd := demo_cd\<lparr>rtn := - 1\<rparr>\<rparr>), w))\<rparr>"

definition feedback_env :: "unit env" where
  "feedback_env =
     demo_env\<lparr>PGMCALL := (\<lambda>p c n1 n2 fl w. ((0, \<lparr>es_val = 0x1100, fb_val = (\<lambda>i. if i = 1 then 5 else 0)\<rparr>), w))\<rparr>"

definition no_library_env :: "unit env" where
  "no_library_env = demo_env\<lparr>ILELOADX := (\<lambda>obj fl w. (- 1, w))\<rparr>"

definition probe_fails_env :: "unit env" where
  "probe_fails_env =
     demo_env\<lparr>PGMCALL := (\<lambda>p c n1 n2 fl w.
        ((if c = 1 then 1 else 0, \<lparr>es_val = 0, fb_val = (\<lambda>i. 0)\<rparr>), w))\<rparr>"

text \<open>
  The state in which every pointer has been resolved already.
\<close>

definition resolved_state :: "unit state" where
  "resolved_state = init_state\<lparr>ptr_attr := (\<lambda>f. Some demo_ptr)\<rparr>"

section \<open>Basic facts\<close>

lemma syscall_simps [simp]:
  "world (syscall ev w s) = w"
  "trace (syscall ev w s) = trace s @ [ev]"
  "ptr_attr (syscall ev w s) = ptr_attr s"
  "stdout (syscall ev w s) = stdout s"
  "files (syscall ev w s) = files s"
  by (simp_all add: syscall_def)

lemma print_stdout_simps [simp]:
  "world (print_stdout l s) = world s"
  "trace (print_stdout l s) = trace s"
  "ptr_attr (print_stdout l s) = ptr_attr s"
  "stdout (print_stdout l s) = stdout s @ [l]"
  "files (print_stdout l s) = files s"
  by (simp_all add: print_stdout_def)

lemma load_symbol_cases:
  assumes "load_symbol env l obj y s = (r, s1)"
  shows "ptr_attr s1 = ptr_attr s \<and> stdout s1 = stdout s \<and> files s1 = files s \<and>
         (\<exists>a. (trace s1 = trace s @ [Ev_ILELOADX (l @ ''/'' @ obj) ILELOAD_LIBOBJ] \<and> (\<exists>m. r = Inl (OSError m)))
            \<or> trace s1 = trace s @ [Ev_ILELOADX (l @ ''/'' @ obj) ILELOAD_LIBOBJ, Ev_ILESYMX a y])"
  using assms
  by (auto simp: load_symbol_def Let_def split: prod.splits if_splits)

lemma cached_ptr_hit: "ptr_attr s f = Some p \<Longrightarrow> cached_ptr env f l obj y s = (Inr p, s)"
  by (simp add: cached_ptr_def)

lemma cached_ptr_trace:
  assumes "cached_ptr env f l obj y s = (r, s1)"
  shows "\<exists>evs. trace s1 = trace s @ evs \<and> list_all is_resolution evs"
  using assms
  by (auto simp: cached_ptr_def load_symbol_def Let_def split: option.splits prod.splits if_splits)

lemma demo_load: "load_symbol demo_env l obj y s =
    (Inr demo_ptr, s\<lparr>trace := trace s @ [Ev_ILELOADX (l @ ''/'' @ obj) ILELOAD_LIBOBJ, Ev_ILESYMX 1 y]\<rparr>)"
  by (simp add: load_symbol_def demo_env_def syscall_def ILESYM_PROCEDURE_def)

lemma failing_load: "load_symbol failing_env l obj y s =
    (Inr demo_ptr, s\<lparr>trace := trace s @ [Ev_ILELOADX (l @ ''/'' @ obj) ILELOAD_LIBOBJ, Ev_ILESYMX 1 y]\<rparr>)"
  by (simp add: load_symbol_def failing_env_def demo_env_def syscall_def ILESYM_PROCEDURE_def)

lemma no_converter_load: "load_symbol no_converter_env l obj y s =
    (Inr demo_ptr, s\<lparr>trace := trace s @ [Ev_ILELOADX (l @ ''/'' @ obj) ILELOAD_LIBOBJ, Ev_ILESYMX 1 y]\<rparr>)"
  by (simp add: load_symbol_def no_converter_env_def demo_env_def syscall_def ILESYM_PROCEDURE_def)

lemma cached_ptr_init:
  assumes "\<And>s. load_symbol env l obj y s =
    (Inr demo_ptr, s\<lparr>trace := trace s @ [Ev_ILELOADX (l @ ''/'' @ obj) ILELOAD_LIBOBJ, Ev_ILESYMX 1 y]\<rparr>)"
  shows "cached_ptr env f l obj y init_state = (Inr demo_ptr, snd (cached_ptr env f l obj y init_state))"
  by (simp add: cached_ptr_def assms init_state_def)

lemma conv_loop_length:
  "conv_loop env d w cps table s = (Inr table', s') \<Longrightarrow> length table' = length table"
proof (induction cps arbitrary: table s)
  case Nil
  then show ?case by simp
next
  case (Cons cp cps)
  then show ?case
    by (auto split: sum.splits prod.splits)
qed

lemma dump_conv_table_length:
  assumes "dump_conv_table env c es s = (Inr (Some t), s')"
  shows "length t = (if es = 0x1100 then 256 else 65536)"
  using assms
  by (auto simp: dump_conv_table_def Let_def dest!: conv_loop_length
      split: prod.splits sum.splits if_splits simp del: upt_rec_numeral)

subsection \<open>Hexadecimal text read back\<close>

lemma hexdigit_val_all: "\<forall>n\<in>set [0..<16]. hex_digit_val (hexdigit n) = Some n"
  by code_simp

lemma hexdigit_val: "n < 16 \<Longrightarrow> hex_digit_val (hexdigit n) = Some n"
  using hexdigit_val_all by simp

lemma int16_acc_append:
  "int16_acc acc (xs @ ys) = (case int16_acc acc xs of None \<Rightarrow> None | Some a \<Rightarrow> int16_acc a ys)"
  by (induction xs arbitrary: acc) (auto split: option.splits)

lemma int16_acc_byte:
  "int16_acc acc [hexdigit (unat b div 16), hexdigit (unat b mod 16)] = Some (acc * 256 + unat (b::byte))"
proof -
  have "unat b < 256" using unsigned_less [of b, where ?'a = nat] by simp
  then have "unat b div 16 < 16" by simp
  then show ?thesis by (simp add: hexdigit_val)
qed

lemma int16_acc_bytes_hex: "int16_acc acc (bytes_hex bs) = Some (be_val acc bs)"
proof (induction bs arbitrary: acc)
  case Nil then show ?case by (simp add: bytes_hex_def)
next
  case (Cons b bs)
  have "bytes_hex (b # bs) = [hexdigit (unat b div 16), hexdigit (unat b mod 16)] @ bytes_hex bs"
    by (simp add: bytes_hex_def)
  then show ?case using Cons.IH int16_acc_byte[of acc b]
    by (simp only: int16_acc_append be_val.simps option.case)
qed

lemma py_int16_bytes_hex: "bs \<noteq> [] \<Longrightarrow> py_int16 (bytes_hex bs) = Some (be_val 0 bs)"
  by (cases bs) (simp_all add: py_int16_def int16_acc_bytes_hex, simp add: bytes_hex_def)

lemma py_slice_to_nonneg:
  "k \<le> length xs \<Longrightarrow> py_slice_to xs (int (length xs) - int k) = take (length xs - k) xs"
  by (simp add: py_slice_to_def nat_diff_distrib')

subsection \<open>The pointer lookup\<close>

lemma the_ptr_eqs:
  "cached_ptr env F_get_ile_errno ''QSYS'' ''QC2UTIL1'' ''__errno'' s = the_ptr env F_get_ile_errno s"
  "cached_ptr env F_iconv_open ''QSYS'' ''QTQICONV'' ''QtqIconvOpen'' s = the_ptr env F_iconv_open s"
  "cached_ptr env F_iconv_close ''QSYS'' ''QTQICONV'' ''iconv_close'' s = the_ptr env F_iconv_close s"
  "cached_ptr env F_iconv ''QSYS'' ''QTQICONV'' ''iconv'' s = the_ptr env F_iconv s"
  "resolve_qtqgesp env s = the_ptr env F_get_encoding_scheme s"
  by (simp_all add: cached_ptr_def the_ptr_def resolve_qtqgesp_def Let_def split: option.splits prod.splits)

lemma resolve_trace:
  assumes "resolve env f s = (r, s1)"
  shows "ptr_attr s1 = ptr_attr s \<and> (\<exists>evs. trace s1 = trace s @ evs \<and> evs \<noteq> [] \<and> list_all is_resolution evs)"
proof (cases f)
  case F_get_encoding_scheme
  then show ?thesis using assms by (auto split: prod.splits)
qed (use assms in \<open>auto simp: load_symbol_def Let_def split: prod.splits if_splits\<close>)

text \<open>
  After the pointer is known, each function makes its call through it and resolves
  nothing.
\<close>

lemma run_after_ptr:
  assumes "the_ptr env (func_of c) s = (Inr p, s1)" and "run env c s = (r, s')"
  shows "ptr_attr s' = ptr_attr s1 \<and>
         (\<exists>evs. trace s' = trace s1 @ evs \<and> \<not> list_ex is_resolution evs \<and> List.map_filter event_ptr evs = [p])"
proof (cases c)
  case Call_get_ile_errno
  then show ?thesis using assms
    by (auto simp: get_ile_errno_def the_ptr_eqs outcome_def Let_def List.map_filter_simps
        split: prod.splits if_splits option.splits)
next
  case (Call_iconv_open a b)
  then show ?thesis using assms
    by (auto simp: iconv_open_def the_ptr_eqs outcome_def Let_def List.map_filter_simps
        split: prod.splits if_splits)
next
  case (Call_iconv_close d)
  then show ?thesis using assms
    by (auto simp: iconv_close_def the_ptr_eqs outcome_def Let_def List.map_filter_simps
        split: prod.splits if_splits)
next
  case (Call_iconv d data)
  then show ?thesis using assms
    by (auto simp: iconv_def the_ptr_eqs outcome_def Let_def List.map_filter_simps
        split: prod.splits if_splits)
next
  case (Call_get_encoding_scheme x)
  then show ?thesis using assms
    by (auto simp: get_encoding_scheme_def the_ptr_eqs outcome_def Let_def List.map_filter_simps
        split: prod.splits if_splits)
qed

lemma run_no_ptr:
  assumes "the_ptr env (func_of c) s = (Inl e, s1)"
  shows "run env c s = (Some e, s1)"
  using assms
  by (cases c) (simp_all add: get_ile_errno_def iconv_open_def iconv_close_def iconv_def
      get_encoding_scheme_def the_ptr_eqs outcome_def)

section \<open>Reading errno\<close>

text \<open>
  Claim C7. \<open>get_ile_errno\<close> calls the accessor with the base argument list and
  the signature that holds only the end code, copies exactly 4 bytes from the cell that
  the returned pointer designates, and returns them read as a big-endian unsigned
  integer.
\<close>

theorem get_ile_errno_big_endian:
  assumes "cached_ptr env F_get_ile_errno ''QSYS'' ''QC2UTIL1'' ''__errno'' s = (Inr ptr, s1)"
    and "ILECALLX env ptr ILEArglistBase [0] 16 ILECALL_EXCP_NOSIGNAL (world s1) = ((0, m), w2)"
    and "MEMCPY_WT2 env (result_ptr m) 4 w2 = (buf, w3)"
  shows "\<exists>s3. get_ile_errno env s =
            (Inr (unat (buf 0) * 2 ^ 24 + unat (buf 1) * 2 ^ 16 + unat (buf 2) * 2 ^ 8 + unat (buf 3)), s3)
          \<and> world s3 = w3
          \<and> trace s3 = trace s1 @ [Ev_ILECALLX ptr ILEArglistBase [0] 16 ILECALL_EXCP_NOSIGNAL,
                                     Ev_MEMCPY_WT2 (result_ptr m) 4]"
proof -
  have u: "[0..<4] = [0, 1, 2, 3::nat]" by (simp add: upt_rec)
  have "py_int16 (bytes_hex (map buf [0..<4])) =
        Some (unat (buf 0) * 2 ^ 24 + unat (buf 1) * 2 ^ 16 + unat (buf 2) * 2 ^ 8 + unat (buf 3))"
    unfolding u by (simp add: py_int16_bytes_hex)
  then show ?thesis using assms
    by (simp add: get_ile_errno_def ARG_END_def Let_def)
qed

theorem get_ile_errno_big_endian_witness:
  "fst (get_ile_errno demo_env init_state) = Inr 0x01020304"
proof -
  let ?s1 = "snd (cached_ptr demo_env F_get_ile_errno ''QSYS'' ''QC2UTIL1'' ''__errno'' init_state)"
  have a: "cached_ptr demo_env F_get_ile_errno ''QSYS'' ''QC2UTIL1'' ''__errno'' init_state = (Inr demo_ptr, ?s1)"
    by (simp add: cached_ptr_def demo_load init_state_def)
  have b: "ILECALLX demo_env demo_ptr ILEArglistBase [0] 16 ILECALL_EXCP_NOSIGNAL (world ?s1)
           = ((0, demo_mem ILEArglistBase), ())"
    by (simp add: demo_env_def)
  have c: "MEMCPY_WT2 demo_env (result_ptr (demo_mem ILEArglistBase)) 4 () = ((\<lambda>i. of_nat (i + 1)), ())"
    by (simp add: demo_env_def)
  from get_ile_errno_big_endian [OF a b c] show ?thesis by auto
qed

section \<open>Calls through the bridge\<close>

text \<open>
  Claim C6. A convert call that returns passes an output length of 8 for a buffer of 8
  bytes, and its output is the first \<open>8 - r\<close> bytes of that buffer, where \<open>r\<close>
  is the remaining length that the foreign side wrote back (at most 8, as the foreign
  side only counts down).
\<close>

theorem iconv_output_length:
  assumes "cached_ptr env F_iconv ''QSYS'' ''QTQICONV'' ''iconv'' s = (Inr ptr, s1)"
    and "ILECALLX env ptr (IconvArglist d (data @ [0]) (of_nat (length data)) 8)
           iconv_signature RESULT_UINT32 0 (world s1) = ((0, m), w2)"
    and "unat (out_len m) \<le> 8"
  shows "\<exists>out s2. iconv env d data s = (Inr (result_hi m, out), s2)
          \<and> out = take (8 - unat (out_len m)) (map (out_buf m) [0..<8])
          \<and> length out = 8 - unat (out_len m)"
proof -
  let ?raw = "map (out_buf m) [0..<8]"
  have "py_slice_to ?raw (int (length ?raw) - int (unat (out_len m))) =
        take (length ?raw - unat (out_len m)) ?raw"
    using assms(3) by (intro py_slice_to_nonneg) simp
  then have "py_slice_to ?raw (8 - int (unat (out_len m))) = take (8 - unat (out_len m)) ?raw"
    by simp
  then show ?thesis using assms
    by (simp add: iconv_def Let_def del: upt_rec_numeral)
qed

theorem iconv_output_length_witness:
  "fst (iconv demo_env demo_cd [0x41] init_state) = Inr (0, [0x00, 0x41])"
proof -
  let ?s1 = "snd (cached_ptr demo_env F_iconv ''QSYS'' ''QTQICONV'' ''iconv'' init_state)"
  let ?a = "IconvArglist demo_cd ([0x41] @ [0]) (of_nat (length [0x41::byte])) 8"
  have a: "cached_ptr demo_env F_iconv ''QSYS'' ''QTQICONV'' ''iconv'' init_state = (Inr demo_ptr, ?s1)"
    by (simp add: cached_ptr_def demo_load init_state_def)
  have b: "ILECALLX demo_env demo_ptr ?a iconv_signature RESULT_UINT32 0 (world ?s1)
           = ((0, demo_mem ?a), ())"
    by (simp add: demo_env_def)
  have c: "unat (out_len (demo_mem ?a)) \<le> 8" by (simp add: demo_mem_def)
  have d: "take 2 (map f [0..<8]) = [f 0, f 1]" for f :: "nat \<Rightarrow> byte"
    by (simp add: upt_rec numeral_2_eq_2)
  from iconv_output_length [OF a b c] show ?thesis by (auto simp: demo_mem_def d)
qed

text \<open>
  Claim C4. In each of the four bridged functions a nonzero return of \<open>_ILECALLX\<close>
  raises \<open>RuntimeError\<close>, and a zero return makes the function return.
\<close>

theorem bridge_failure_raises:
  "(cached_ptr env F_get_ile_errno ''QSYS'' ''QC2UTIL1'' ''__errno'' s = (Inr p, s1) \<longrightarrow>
      (if fst (fst (ILECALLX env p ILEArglistBase [ARG_END] 16 ILECALL_EXCP_NOSIGNAL (world s1))) \<noteq> 0
       then fst (get_ile_errno env s) = Inl (RuntimeError ''Failed to call QtqIconvOpen with _ILECALL'')
       else \<exists>v. fst (get_ile_errno env s) = Inr v))
   \<and> (cached_ptr env F_iconv_open ''QSYS'' ''QTQICONV'' ''QtqIconvOpen'' s = (Inr p, s1) \<longrightarrow>
      (if fst (fst (ILECALLX env p (IconvOpenArglist (make_qtqcode_t out_ccsid) (make_qtqcode_t in_ccsid))
                      [ARG_MEMPTR, ARG_MEMPTR, ARG_END] sizeof_iconv_t ILECALL_EXCP_NOSIGNAL (world s1))) \<noteq> 0
       then fst (iconv_open env out_ccsid in_ccsid s) = Inl (RuntimeError ''Failed to call QtqIconvOpen with _ILECALL'')
       else \<exists>v. fst (iconv_open env out_ccsid in_ccsid s) = Inr v))
   \<and> (cached_ptr env F_iconv_close ''QSYS'' ''QTQICONV'' ''iconv_close'' s = (Inr p, s1) \<longrightarrow>
      (if fst (fst (ILECALLX env p (IconvCloseArglist d) [sizeof_iconv_t, ARG_END] RESULT_INT32
                      ILECALL_EXCP_NOSIGNAL (world s1))) \<noteq> 0
       then fst (iconv_close env d s) = Inl (RuntimeError ''Failed to call iconv_close with _ILECALL'')
       else \<exists>v. fst (iconv_close env d s) = Inr v))
   \<and> (cached_ptr env F_iconv ''QSYS'' ''QTQICONV'' ''iconv'' s = (Inr p, s1) \<longrightarrow>
      (if fst (fst (ILECALLX env p (IconvArglist d (data @ [0]) (of_nat (length data)) 8)
                      iconv_signature RESULT_UINT32 0 (world s1))) \<noteq> 0
       then fst (iconv env d data s) = Inl (RuntimeError ''Failed to call iconv with _ILECALL'')
       else \<exists>v. fst (iconv env d data s) = Inr v))"
proof (intro conjI impI)
  assume "cached_ptr env F_get_ile_errno ''QSYS'' ''QC2UTIL1'' ''__errno'' s = (Inr p, s1)"
  moreover have "py_int16 (bytes_hex (map b [0..<4])) = Some (be_val 0 (map b [0..<4]))"
    for b :: "nat \<Rightarrow> byte"
    by (rule py_int16_bytes_hex) simp
  ultimately show "if fst (fst (ILECALLX env p ILEArglistBase [ARG_END] 16 ILECALL_EXCP_NOSIGNAL (world s1))) \<noteq> 0
       then fst (get_ile_errno env s) = Inl (RuntimeError ''Failed to call QtqIconvOpen with _ILECALL'')
       else \<exists>v. fst (get_ile_errno env s) = Inr v"
    by (auto simp: get_ile_errno_def Let_def split: prod.splits option.splits simp del: upt_rec_numeral)
next
  assume "cached_ptr env F_iconv_open ''QSYS'' ''QTQICONV'' ''QtqIconvOpen'' s = (Inr p, s1)"
  then show "if fst (fst (ILECALLX env p (IconvOpenArglist (make_qtqcode_t out_ccsid) (make_qtqcode_t in_ccsid))
                      [ARG_MEMPTR, ARG_MEMPTR, ARG_END] sizeof_iconv_t ILECALL_EXCP_NOSIGNAL (world s1))) \<noteq> 0
       then fst (iconv_open env out_ccsid in_ccsid s) = Inl (RuntimeError ''Failed to call QtqIconvOpen with _ILECALL'')
       else \<exists>v. fst (iconv_open env out_ccsid in_ccsid s) = Inr v"
    by (auto simp: iconv_open_def Let_def split: prod.splits)
next
  assume "cached_ptr env F_iconv_close ''QSYS'' ''QTQICONV'' ''iconv_close'' s = (Inr p, s1)"
  then show "if fst (fst (ILECALLX env p (IconvCloseArglist d) [sizeof_iconv_t, ARG_END] RESULT_INT32
                      ILECALL_EXCP_NOSIGNAL (world s1))) \<noteq> 0
       then fst (iconv_close env d s) = Inl (RuntimeError ''Failed to call iconv_close with _ILECALL'')
       else \<exists>v. fst (iconv_close env d s) = Inr v"
    by (auto simp: iconv_close_def Let_def split: prod.splits)
next
  assume "cached_ptr env F_iconv ''QSYS'' ''QTQICONV'' ''iconv'' s = (Inr p, s1)"
  then show "if fst (fst (ILECALLX env p (IconvArglist d (data @ [0]) (of_nat (length data)) 8)
                      iconv_signature RESULT_UINT32 0 (world s1))) \<noteq> 0
       then fst (iconv env d data s) = Inl (RuntimeError ''Failed to call iconv with _ILECALL'')
       else \<exists>v. fst (iconv env d data s) = Inr v"
    by (auto simp: iconv_def Let_def split: prod.splits simp del: upt_rec_numeral)
qed

theorem bridge_failure_raises_witness:
  "(\<exists>v. fst (get_ile_errno demo_env init_state) = Inr v)
   \<and> fst (get_ile_errno failing_env init_state) = Inl (RuntimeError ''Failed to call QtqIconvOpen with _ILECALL'')
   \<and> (\<exists>v. fst (iconv_open demo_env 1200 37 init_state) = Inr v)
   \<and> fst (iconv_open failing_env 1200 37 init_state) = Inl (RuntimeError ''Failed to call QtqIconvOpen with _ILECALL'')
   \<and> (\<exists>v. fst (iconv_close demo_env demo_cd init_state) = Inr v)
   \<and> fst (iconv_close failing_env demo_cd init_state) = Inl (RuntimeError ''Failed to call iconv_close with _ILECALL'')
   \<and> (\<exists>v. fst (iconv demo_env demo_cd [0x41] init_state) = Inr v)
   \<and> fst (iconv failing_env demo_cd [0x41] init_state) = Inl (RuntimeError ''Failed to call iconv with _ILECALL'')"
proof -
  note ok = cached_ptr_init [of demo_env, OF demo_load]
  note ko = cached_ptr_init [of failing_env, OF failing_load]
  have rc_ok: "fst (fst (ILECALLX demo_env p a sg r fl w)) = 0" for p a sg r fl w
    by (simp add: demo_env_def)
  have rc_ko: "fst (fst (ILECALLX failing_env p a sg r fl w)) = 1" for p a sg r fl w
    by (simp add: failing_env_def)
  note c1 = conjunct1 and c2 = conjunct2 [THEN conjunct1]
    and c3 = conjunct2 [THEN conjunct2, THEN conjunct1]
    and c4 = conjunct2 [THEN conjunct2, THEN conjunct2]
  have "\<exists>v. fst (get_ile_errno demo_env init_state) = Inr v"
    using bridge_failure_raises [where env = demo_env, THEN c1, THEN mp, OF ok] rc_ok
    by (simp add: ARG_END_def)
  moreover have "fst (get_ile_errno failing_env init_state)
      = Inl (RuntimeError ''Failed to call QtqIconvOpen with _ILECALL'')"
    using bridge_failure_raises [where env = failing_env, THEN c1, THEN mp, OF ko] rc_ko
    by simp
  moreover have "\<exists>v. fst (iconv_open demo_env 1200 37 init_state) = Inr v"
    using bridge_failure_raises [where env = demo_env, THEN c2, THEN mp, OF ok] rc_ok
    by simp
  moreover have "fst (iconv_open failing_env 1200 37 init_state)
      = Inl (RuntimeError ''Failed to call QtqIconvOpen with _ILECALL'')"
    using bridge_failure_raises [where env = failing_env, THEN c2, THEN mp, OF ko] rc_ko
    by simp
  moreover have "\<exists>v. fst (iconv_close demo_env demo_cd init_state) = Inr v"
    using bridge_failure_raises [where env = demo_env, THEN c3, THEN mp, OF ok] rc_ok
    by simp
  moreover have "fst (iconv_close failing_env demo_cd init_state)
      = Inl (RuntimeError ''Failed to call iconv_close with _ILECALL'')"
    using bridge_failure_raises [where env = failing_env, THEN c3, THEN mp, OF ko] rc_ko
    by simp
  moreover have "\<exists>v. fst (iconv demo_env demo_cd [0x41] init_state) = Inr v"
    using bridge_failure_raises [where env = demo_env, THEN c4, THEN mp, OF ok] rc_ok
    by simp
  moreover have "fst (iconv failing_env demo_cd [0x41] init_state)
      = Inl (RuntimeError ''Failed to call iconv with _ILECALL'')"
    using bridge_failure_raises [where env = failing_env, THEN c4, THEN mp, OF ko] rc_ko
    by simp
  ultimately show ?thesis by blast
qed

text \<open>
  Claim C5. A call that finds its attribute set makes no load and no resolution and
  calls through the stored pointer. A call that finds it unset resolves: when the
  resolution succeeds the pointer is stored and used, when it fails the error is raised,
  nothing is stored, and the next call resolves again.
\<close>

theorem symbol_handle_cached:
  assumes "run env c s = (r, s')"
  shows "(\<forall>p. ptr_attr s (func_of c) = Some p \<longrightarrow>
            ptr_attr s' (func_of c) = Some p \<and>
            (\<exists>evs. trace s' = trace s @ evs \<and> \<not> list_ex is_resolution evs
                   \<and> List.map_filter event_ptr evs = [p]))
       \<and> (\<forall>p s1. ptr_attr s (func_of c) = None \<and> resolve env (func_of c) s = (Inr p, s1) \<longrightarrow>
            ptr_attr s' (func_of c) = Some p \<and>
            (\<exists>evs. trace s' = trace s1 @ evs \<and> \<not> list_ex is_resolution evs
                   \<and> List.map_filter event_ptr evs = [p]))
       \<and> (\<forall>e s1. ptr_attr s (func_of c) = None \<and> resolve env (func_of c) s = (Inl e, s1) \<longrightarrow>
            r = Some e \<and> s' = s1 \<and> ptr_attr s' (func_of c) = None
            \<and> (\<exists>evs. trace s' = trace s @ evs \<and> evs \<noteq> [] \<and> list_all is_resolution evs))"
proof (intro conjI allI impI)
  fix p assume "ptr_attr s (func_of c) = Some p"
  then have "the_ptr env (func_of c) s = (Inr p, s)" by (simp add: the_ptr_def)
  from run_after_ptr [OF this assms] \<open>ptr_attr s (func_of c) = Some p\<close>
  show "ptr_attr s' (func_of c) = Some p"
    and "\<exists>evs. trace s' = trace s @ evs \<and> \<not> list_ex is_resolution evs
             \<and> List.map_filter event_ptr evs = [p]"
    by simp_all
next
  fix p s1 assume a: "ptr_attr s (func_of c) = None \<and> resolve env (func_of c) s = (Inr p, s1)"
  then have "the_ptr env (func_of c) s = (Inr p, s1\<lparr>ptr_attr := (ptr_attr s1)(func_of c \<mapsto> p)\<rparr>)"
    by (simp add: the_ptr_def)
  from run_after_ptr [OF this assms]
  show "ptr_attr s' (func_of c) = Some p"
    and "\<exists>evs. trace s' = trace s1 @ evs \<and> \<not> list_ex is_resolution evs
             \<and> List.map_filter event_ptr evs = [p]"
    by simp_all
next
  fix e s1 assume a: "ptr_attr s (func_of c) = None \<and> resolve env (func_of c) s = (Inl e, s1)"
  then have "the_ptr env (func_of c) s = (Inl e, s1)" by (simp add: the_ptr_def)
  from run_no_ptr [OF this] assms have rs: "r = Some e" "s' = s1" by simp_all
  from a resolve_trace [of env "func_of c" s "Inl e" s1]
  show "r = Some e" and "s' = s1" and "ptr_attr s' (func_of c) = None"
    and "\<exists>evs. trace s' = trace s @ evs \<and> evs \<noteq> [] \<and> list_all is_resolution evs"
    using rs by simp_all
qed

theorem symbol_handle_cached_witness:
  "ptr_attr (snd (run demo_env (Call_iconv demo_cd [0x41]) init_state)) F_iconv = Some demo_ptr
   \<and> ptr_attr (snd (run demo_env (Call_iconv demo_cd [0x42])
                      (snd (run demo_env (Call_iconv demo_cd [0x41]) init_state)))) F_iconv = Some demo_ptr
   \<and> fst (run no_library_env (Call_iconv demo_cd [0x41]) init_state)
       = Some (OSError ''QSYS/QTQICONV not found'')"
proof -
  let ?c = "Call_iconv demo_cd [0x41]"
  let ?c2 = "Call_iconv demo_cd [0x42]"
  let ?r1 = "run demo_env ?c init_state"
  let ?r2 = "run demo_env ?c2 (snd ?r1)"
  let ?bad = "no_library_env"
  let ?r3 = "run ?bad ?c init_state"
  have n: "ptr_attr init_state (func_of ?c) = None" by (simp add: init_state_def)
  have res: "resolve demo_env (func_of ?c) init_state = (Inr demo_ptr, snd (resolve demo_env (func_of ?c) init_state))"
    by (simp add: demo_load)
  have one: "ptr_attr (snd ?r1) F_iconv = Some demo_ptr"
    using symbol_handle_cached [of demo_env ?c init_state "fst ?r1" "snd ?r1"] n res by auto
  then have two: "ptr_attr (snd ?r2) F_iconv = Some demo_ptr"
    using symbol_handle_cached [of demo_env ?c2 "snd ?r1" "fst ?r2" "snd ?r2"] by auto
  have bad: "resolve ?bad (func_of ?c) init_state =
      (Inl (OSError ''QSYS/QTQICONV not found''), snd (resolve ?bad (func_of ?c) init_state))"
    by (simp add: load_symbol_def no_library_env_def demo_env_def)
  have three: "fst ?r3 = Some (OSError ''QSYS/QTQICONV not found'')"
    using symbol_handle_cached [of ?bad ?c init_state "fst ?r3" "snd ?r3"] n bad by auto
  from one two three show ?thesis by simp
qed

text \<open>
  Claim C3. When the foreign open returns zero and writes a descriptor whose \<open>rtn\<close>
  is -1, \<open>iconv_open\<close> returns that descriptor and raises nothing;
  \<open>dump_conv_table\<close> then prints a message and returns no table, in the state that
  \<open>iconv_open\<close> left: no convert call and no close call is made.
\<close>

theorem open_failure_in_band:
  assumes "cached_ptr env F_iconv_open ''QSYS'' ''QTQICONV'' ''QtqIconvOpen'' s = (Inr p, s0)"
    and "ILECALLX env p (IconvOpenArglist (make_qtqcode_t 1200) (make_qtqcode_t c))
           [ARG_MEMPTR, ARG_MEMPTR, ARG_END] sizeof_iconv_t ILECALL_EXCP_NOSIGNAL (world s0) = ((0, m), w)"
    and "sint (rtn (result_cd m)) = - 1"
  shows "\<exists>s1. iconv_open env 1200 c s = (Inr (result_cd m), s1)
           \<and> dump_conv_table env c es s = (Inr None, print_stdout ''Couldn't open converter'' s1)
           \<and> trace (snd (dump_conv_table env c es s)) = trace s1
           \<and> (\<exists>evs. trace s1 = trace s @ evs \<and> \<not> list_ex is_convert_or_close evs)"
proof -
  let ?ev = "Ev_ILECALLX p (IconvOpenArglist (make_qtqcode_t 1200) (make_qtqcode_t c))
               [ARG_MEMPTR, ARG_MEMPTR, ARG_END] sizeof_iconv_t ILECALL_EXCP_NOSIGNAL"
  let ?s1 = "syscall ?ev w s0"
  have op: "iconv_open env 1200 c s = (Inr (result_cd m), ?s1)"
    using assms(1,2) by (simp add: iconv_open_def Let_def)
  then have dump: "dump_conv_table env c es s = (Inr None, print_stdout ''Couldn't open converter'' ?s1)"
    using assms(3) by (simp add: dump_conv_table_def)
  from cached_ptr_trace [OF assms(1)] obtain evs0 where
    e0: "trace s0 = trace s @ evs0" "list_all is_resolution evs0" by blast
  have "\<not> list_ex is_convert_or_close evs0"
    using e0(2) by (induction evs0) (auto elim: is_resolution.elims)
  then have "trace ?s1 = trace s @ (evs0 @ [?ev]) \<and> \<not> list_ex is_convert_or_close (evs0 @ [?ev])"
    using e0(1) by simp
  then have "\<exists>evs. trace ?s1 = trace s @ evs \<and> \<not> list_ex is_convert_or_close evs" by blast
  with op dump show ?thesis by simp
qed

theorem open_failure_in_band_witness:
  "fst (dump_conv_table no_converter_env 37 0x1100 init_state) = Inr None
   \<and> stdout (snd (dump_conv_table no_converter_env 37 0x1100 init_state)) = [''Couldn't open converter'']
   \<and> trace (snd (dump_conv_table no_converter_env 37 0x1100 init_state))
       = trace (snd (iconv_open no_converter_env 1200 37 init_state))"
proof -
  let ?s0 = "snd (cached_ptr no_converter_env F_iconv_open ''QSYS'' ''QTQICONV'' ''QtqIconvOpen'' init_state)"
  let ?a = "IconvOpenArglist (make_qtqcode_t 1200) (make_qtqcode_t 37)"
  let ?m = "(demo_mem ?a)\<lparr>result_cd := demo_cd\<lparr>rtn := - 1\<rparr>\<rparr>"
  note a = cached_ptr_init [of no_converter_env, OF no_converter_load]
  have b: "ILECALLX no_converter_env demo_ptr ?a [ARG_MEMPTR, ARG_MEMPTR, ARG_END] sizeof_iconv_t
             ILECALL_EXCP_NOSIGNAL (world ?s0) = ((0, ?m), ())"
    by (simp add: no_converter_env_def)
  have c: "sint (rtn (result_cd ?m)) = - 1" by simp
  from open_failure_in_band [OF a b c, of "0x1100"] obtain s1 where
    s1: "iconv_open no_converter_env 1200 37 init_state = (Inr (result_cd ?m), s1)"
      "dump_conv_table no_converter_env 37 0x1100 init_state
         = (Inr None, print_stdout ''Couldn't open converter'' s1)"
    by blast
  have "stdout s1 = []"
    using s1(1) a by (auto simp: iconv_open_def Let_def cached_ptr_def no_converter_load init_state_def
        split: prod.splits if_splits)
  with s1 show ?thesis by simp
qed

section \<open>Classification\<close>

text \<open>
  Claim C2. When the program call returns zero, \<open>get_encoding_scheme\<close> returns -1
  if any of the three feedback elements is nonzero and the classification code
  otherwise; the driver does nothing more for an identifier whose code is neither
  0x1100 nor 0x1200, and -1 is neither; a table built for the code has 256 entries when
  the code is 0x1100 and 65536 otherwise.
\<close>

theorem encoding_scheme_classification:
  assumes "resolve_qtqgesp env s = (Inr p, s1)"
    and "PGMCALL env p (word_of_int (int n)) 2 0 PGMCALL_EXCP_NOSIGNAL (world s1) = ((0, m), w2)"
  shows "\<exists>es s2. get_encoding_scheme env (int n) s = (Inr es, s2)
           \<and> ((\<exists>i<3. fb_val m i \<noteq> 0) \<longrightarrow> es = - 1)
           \<and> ((\<forall>i<3. fb_val m i = 0) \<longrightarrow> es = sint (es_val m))
           \<and> (es = - 1 \<longrightarrow> es \<notin> {0x1100, 0x1200})
           \<and> (es \<notin> {0x1100, 0x1200} \<longrightarrow> driver_body env n s = (Inr (), s2))
           \<and> (\<forall>s0 t s'. dump_conv_table env (int n) es s0 = (Inr (Some t), s') \<longrightarrow>
                 length t = (if es = 0x1100 then 256 else 65536))"
proof -
  let ?s2 = "syscall (Ev_PGMCALL p (word_of_int (int n)) PGMCALL_EXCP_NOSIGNAL) w2 s1"
  let ?es = "if list_ex (\<lambda>x. x \<noteq> 0) (map (fb_val m) [0..<3]) then - 1 else sint (es_val m)"
  have g: "get_encoding_scheme env (int n) s = (Inr ?es, ?s2)"
    using assms by (simp add: get_encoding_scheme_def Let_def del: upt_rec_numeral)
  have ex: "list_ex (\<lambda>x. x \<noteq> 0) (map (fb_val m) [0..<3]) \<longleftrightarrow> (\<exists>i<3. fb_val m i \<noteq> 0)"
    by (auto simp: list_ex_iff simp del: upt_rec_numeral)
  have d: "?es \<notin> {0x1100, 0x1200} \<longrightarrow> driver_body env n s = (Inr (), ?s2)"
    using g by (simp add: driver_body_def del: upt_rec_numeral)
  have l: "\<forall>s0 t s'. dump_conv_table env (int n) ?es s0 = (Inr (Some t), s') \<longrightarrow>
                 length t = (if ?es = 0x1100 then 256 else 65536)"
    using dump_conv_table_length by blast
  show ?thesis
    apply (rule exI [of _ ?es], rule exI [of _ ?s2])
    using g d ex l by (auto simp del: upt_rec_numeral)
qed

theorem encoding_scheme_classification_witness:
  "fst (get_encoding_scheme demo_env 37 init_state) = Inr 0x1100
   \<and> fst (get_encoding_scheme feedback_env 37 init_state) = Inr (- 1)
   \<and> fst (driver_body feedback_env 37 init_state) = Inr ()"
proof -
  have a: "resolve_qtqgesp env init_state = (Inr demo_ptr, snd (resolve_qtqgesp env init_state))"
    if "RSLOBJ2 env = RSLOBJ2 demo_env" for env :: "unit env"
    using that by (simp add: resolve_qtqgesp_def demo_env_def init_state_def)
  have b1: "PGMCALL demo_env demo_ptr (word_of_int (int 37)) 2 0 PGMCALL_EXCP_NOSIGNAL w
          = ((0, \<lparr>es_val = 0x1100, fb_val = (\<lambda>i. 0)\<rparr>), ())" for w
    by (simp add: demo_env_def)
  have b2: "PGMCALL feedback_env demo_ptr (word_of_int (int 37)) 2 0 PGMCALL_EXCP_NOSIGNAL w
          = ((0, \<lparr>es_val = 0x1100, fb_val = (\<lambda>i. if i = 1 then 5 else 0)\<rparr>), ())" for w
    by (simp add: feedback_env_def)
  have one: "fst (get_encoding_scheme demo_env 37 init_state) = Inr 0x1100"
    using encoding_scheme_classification [OF a b1] by auto
  have "\<exists>i<3. (if i = (1::nat) then 5 else (0::32 word)) \<noteq> 0"
    by (rule exI [of _ 1]) simp
  then have two: "fst (get_encoding_scheme feedback_env 37 init_state) = Inr (- 1)
      \<and> fst (driver_body feedback_env 37 init_state) = Inr ()"
    using encoding_scheme_classification [OF a b2] by (auto simp: feedback_env_def)
  from one two show ?thesis by simp
qed

section \<open>What the table builder returns\<close>

lemma to_bytes_big_1: "i < 256 \<Longrightarrow> to_bytes_big i (Suc 0) = Inr [of_nat i]"
  by (simp add: to_bytes_big_def)

lemma to_bytes_big_2:
  "i < 65536 \<Longrightarrow> to_bytes_big i 2 = Inr [of_nat (i div 256), of_nat (i mod 256)]"
proof -
  assume a: "i < 65536"
  then have "i div 256 < 256" by simp
  then have "i div 256 mod 256 = i div 256" by simp
  then show ?thesis using a by (simp add: to_bytes_big_def numeral_2_eq_2)
qed

lemma conv_loop_upt:
  assumes "\<And>i. k \<le> i \<Longrightarrow> i < n \<Longrightarrow>
             \<exists>data. to_bytes_big i w = Inr data \<and> iconv env d data (\<sigma> i) = (Inr (rc i, out i), \<sigma> (Suc i))"
    and "k \<le> n" and "length table = n"
  shows "conv_loop env d w [k..<n] table (\<sigma> k)
           = (Inr (take k table @ map (\<lambda>i. Some (out i)) [k..<n]), \<sigma> n)"
  using assms
proof (induction "n - k" arbitrary: k table)
  case 0
  then show ?case by simp
next
  case (Suc m)
  then have kn: "k < n" by simp
  from Suc.prems(1) [of k] kn obtain data where
    data: "to_bytes_big k w = Inr data" "iconv env d data (\<sigma> k) = (Inr (rc k, out k), \<sigma> (Suc k))"
    by auto
  have m: "m = n - Suc k" using Suc.hyps(2) by simp
  have IH: "conv_loop env d w [Suc k..<n] (table[k := Some (out k)]) (\<sigma> (Suc k))
      = (Inr (take (Suc k) (table[k := Some (out k)]) @ map (\<lambda>i. Some (out i)) [Suc k..<n]), \<sigma> n)"
    using Suc.prems kn by (intro Suc.hyps(1) [OF m]) simp_all
  have t: "take (Suc k) (table[k := Some (out k)]) = take k table @ [Some (out k)]"
    using kn Suc.prems(3) by (simp add: take_Suc_conv_app_nth)
  have u: "[k..<n] = k # [Suc k..<n]" using kn by (rule upt_conv_Cons)
  show ?case unfolding u using data IH t by simp
qed

lemma demo_iconv_resolved:
  assumes "ptr_attr s F_iconv = Some demo_ptr"
  shows "iconv demo_env demo_cd [b] s =
    (Inr (0, [0, b]),
     s\<lparr>trace := trace s @ [Ev_ILECALLX demo_ptr (IconvArglist demo_cd [b, 0] 1 8) iconv_signature RESULT_UINT32 0]\<rparr>)"
proof -
  have d: "take 2 (map f [0..<8]) = [f 0, f 1]" for f :: "nat \<Rightarrow> byte"
    by (simp add: upt_rec numeral_2_eq_2)
  show ?thesis using assms
    by (simp add: iconv_def cached_ptr_def demo_env_def demo_mem_def Let_def syscall_def
        py_slice_to_def d del: upt_rec_numeral)
qed

text \<open>
  Claim C1. After an open that succeeded, when the convert calls for the codepoints
  \<open>0, \<dots>, N - 1\<close>, made in this order each in the state the one before left,
  and the close call all return, \<open>dump_conv_table\<close> returns a table of \<open>N\<close>
  entries, 256 when \<open>es\<close> is 0x1100 and 65536 otherwise, whose entry \<open>i\<close> is the
  output of the convert call on the big-endian bytes of \<open>i\<close>, one byte wide in the
  first case and two bytes wide in the second.
\<close>

theorem dump_conv_table_entries:
  assumes "iconv_open env 1200 c s = (Inr d, \<sigma> 0)"
    and "sint (rtn d) \<noteq> - 1"
    and "N = (if es = 0x1100 then 256 else 65536)"
    and "\<forall>i<N. iconv env d (if es = 0x1100 then [of_nat i] else [of_nat (i div 256), of_nat (i mod 256)])
                  (\<sigma> i) = (Inr (rc i, out i), \<sigma> (Suc i))"
    and "iconv_close env d (\<sigma> N) = (Inr v, s')"
  shows "\<exists>table. dump_conv_table env c es s = (Inr (Some table), s')
           \<and> length table = N \<and> (\<forall>i<N. table ! i = Some (out i))"
proof -
  let ?w = "if es = 0x1100 then 1 else (2::nat)"
  have step: "\<exists>data. to_bytes_big i ?w = Inr data \<and> iconv env d data (\<sigma> i) = (Inr (rc i, out i), \<sigma> (Suc i))"
    if "i < N" for i
  proof (cases "es = 0x1100")
    case True
    with that assms(3) have "to_bytes_big i ?w = Inr [of_nat i]"
      by (simp add: to_bytes_big_1)
    moreover from True that assms(4)
    have "iconv env d [of_nat i] (\<sigma> i) = (Inr (rc i, out i), \<sigma> (Suc i))" by simp
    ultimately show ?thesis by blast
  next
    case False
    with that assms(3) have "to_bytes_big i ?w = Inr [of_nat (i div 256), of_nat (i mod 256)]"
      by (simp add: to_bytes_big_2)
    moreover from False that assms(4)
    have "iconv env d [of_nat (i div 256), of_nat (i mod 256)] (\<sigma> i) = (Inr (rc i, out i), \<sigma> (Suc i))"
      by simp
    ultimately show ?thesis by blast
  qed
  have loop: "conv_loop env d ?w [0..<N] (replicate N None) (\<sigma> 0)
           = (Inr (take 0 (replicate N None) @ map (\<lambda>i. Some (out i)) [0..<N]), \<sigma> N)"
    by (rule conv_loop_upt [where rc = rc]) (use step in \<open>blast, simp_all\<close>)
  have "dump_conv_table env c es s = (Inr (Some (map (\<lambda>i. Some (out i)) [0..<N])), s')"
    using assms(1,2,3,5) loop
    by (auto simp: dump_conv_table_def Let_def simp del: upt_rec_numeral)
  then show ?thesis by simp
qed

theorem dump_conv_table_entries_witness:
  "\<exists>t. fst (dump_conv_table demo_env 37 0x1100 resolved_state) = Inr (Some t)
        \<and> length t = 256 \<and> t ! 0x41 = Some [0, 0x41]"
proof -
  define call where "call i = Ev_ILECALLX demo_ptr (IconvArglist demo_cd [of_nat i, 0] 1 8)
     iconv_signature RESULT_UINT32 0" for i :: nat
  define s1 where "s1 = snd (iconv_open demo_env 1200 37 resolved_state)"
  define \<sigma> where "\<sigma> i = s1\<lparr>trace := trace s1 @ map call [0..<i]\<rparr>" for i
  have op: "iconv_open demo_env 1200 37 resolved_state = (Inr demo_cd, \<sigma> 0)"
    by (simp add: \<sigma>_def s1_def iconv_open_def cached_ptr_def resolved_state_def init_state_def
        demo_env_def demo_mem_def Let_def)
  have attr: "ptr_attr (\<sigma> i) F_iconv = Some demo_ptr" for i
    by (simp add: \<sigma>_def s1_def iconv_open_def cached_ptr_def resolved_state_def init_state_def
        demo_env_def demo_mem_def Let_def syscall_def)
  have conv: "\<forall>i<256. iconv demo_env demo_cd
        (if (0x1100::int) = 0x1100 then [of_nat i] else [of_nat (i div 256), of_nat (i mod 256)]) (\<sigma> i)
        = (Inr (0, [0, of_nat i]), \<sigma> (Suc i))"
    by (simp add: demo_iconv_resolved [OF attr]) (simp add: \<sigma>_def call_def)
  have rtn: "sint (rtn demo_cd) \<noteq> - 1" by (simp add: demo_cd_def)
  have cl: "iconv_close demo_env demo_cd (\<sigma> 256) = (Inr 0, snd (iconv_close demo_env demo_cd (\<sigma> 256)))"
    by (simp add: iconv_close_def cached_ptr_def \<sigma>_def s1_def iconv_open_def resolved_state_def
        init_state_def demo_env_def demo_mem_def Let_def syscall_def del: upt_rec_numeral)
  from dump_conv_table_entries [OF op rtn _ conv cl]
  show ?thesis by force
qed

text \<open>
  An exception of the open call or of a convert call leaves \<open>dump_conv_table\<close> as
  it is, in the state the failing call left, and an exception of
  \<open>dump_conv_table\<close> leaves the body of the driver loop in the same way: no caller
  has a handler.
\<close>

lemma conv_loop_raises:
  assumes "\<And>i. k \<le> i \<Longrightarrow> i < j \<Longrightarrow>
             \<exists>data. to_bytes_big i w = Inr data \<and> iconv env d data (\<sigma> i) = (Inr (rc i, out i), \<sigma> (Suc i))"
    and "k \<le> j" and "j < n"
    and "to_bytes_big j w = Inr data" and "iconv env d data (\<sigma> j) = (Inl e, s')"
  shows "conv_loop env d w [k..<n] table (\<sigma> k) = (Inl e, s')"
  using assms(1,2)
proof (induction "j - k" arbitrary: k table)
  case 0
  then have kj: "k = j" by simp
  have u: "[j..<n] = j # [Suc j..<n]" using assms(3) by (rule upt_conv_Cons)
  show ?case unfolding kj u using assms(4,5) by simp
next
  case (Suc m)
  then have kj: "k < j" by simp
  from Suc.prems(1) [of k] kj obtain dk where
    dk: "to_bytes_big k w = Inr dk" "iconv env d dk (\<sigma> k) = (Inr (rc k, out k), \<sigma> (Suc k))"
    by auto
  have m: "m = j - Suc k" using Suc.hyps(2) by simp
  have IH: "conv_loop env d w [Suc k..<n] (table[k := Some (out k)]) (\<sigma> (Suc k)) = (Inl e, s')"
    using Suc.prems kj by (intro Suc.hyps(1) [OF m]) simp_all
  have u: "[k..<n] = k # [Suc k..<n]" using kj assms(3) by (intro upt_conv_Cons) simp
  show ?case unfolding u using dk IH by simp
qed

lemma dump_conv_table_open_raises:
  "iconv_open env 1200 c s = (Inl e, s1) \<Longrightarrow> dump_conv_table env c es s = (Inl e, s1)"
  by (simp add: dump_conv_table_def)

lemma dump_conv_table_convert_raises:
  assumes "iconv_open env 1200 c s = (Inr d, \<sigma> 0)"
    and "sint (rtn d) \<noteq> - 1"
    and "j < (if es = 0x1100 then 256 else 65536)"
    and "\<forall>i<j. iconv env d (if es = 0x1100 then [of_nat i] else [of_nat (i div 256), of_nat (i mod 256)])
                  (\<sigma> i) = (Inr (rc i, out i), \<sigma> (Suc i))"
    and "iconv env d (if es = 0x1100 then [of_nat j] else [of_nat (j div 256), of_nat (j mod 256)])
           (\<sigma> j) = (Inl e, s')"
  shows "dump_conv_table env c es s = (Inl e, s')"
proof -
  let ?w = "if es = 0x1100 then 1 else (2::nat)"
  let ?N = "if es = 0x1100 then 256 else (65536::nat)"
  let ?b = "\<lambda>i. if es = 0x1100 then [of_nat i] else [of_nat (i div 256), of_nat (i mod 256) :: byte]"
  have tb: "to_bytes_big i ?w = Inr (?b i)" if "i < ?N" for i
    using that by (cases "es = 0x1100") (simp_all add: to_bytes_big_1 to_bytes_big_2)
  have step: "\<exists>data. to_bytes_big i ?w = Inr data \<and> iconv env d data (\<sigma> i) = (Inr (rc i, out i), \<sigma> (Suc i))"
    if "i < j" for i
  proof -
    from that assms(3) have "i < ?N" by simp
    from tb [OF this] that assms(4) show ?thesis by simp
  qed
  have loop: "conv_loop env d ?w [0..<?N] (replicate ?N None) (\<sigma> 0) = (Inl e, s')"
    by (rule conv_loop_raises [where rc = rc and j = j and data = "?b j"])
      (use step assms(3,5) tb [of j] in \<open>blast, simp_all\<close>)
  show ?thesis
    using assms(1,2) loop
    by (cases "es = 0x1100") (simp_all add: dump_conv_table_def Let_def del: upt_rec_numeral)
qed

lemma driver_body_dump_raises:
  assumes "get_encoding_scheme env (int c) s = (Inr es, s1)"
    and "es \<in> {0x1100, 0x1200}" and "c \<notin> {16684, 57777}"
    and "dump_conv_table env (int c) es
           (print_stdout (''ccsid: '' @ format_d 0 c @ '' '' @ format_x 0 (nat es)) s1) = (Inl e, s2)"
  shows "driver_body env c s = (Inl e, s2)"
  using assms by (auto simp: driver_body_def Let_def)

section \<open>Exceptions in the driver loop\<close>

lemma driver_loop_append:
  "driver_loop env (pre @ rest) s =
     (case driver_loop env pre s of (Inl e, s1) \<Rightarrow> (Inl e, s1) | (Inr u, s1) \<Rightarrow> driver_loop env rest s1)"
  by (induction pre arbitrary: s) (auto split: prod.splits sum.splits)

lemma driver_range_split:
  assumes "1 \<le> c" and "c < 65535"
  shows "[1..<65535] = [1..<c] @ c # [Suc c..<65535]"
proof -
  have "[1..<65535] = [1..<c] @ [c..<65535]"
    using assms upt_add_eq_append [of 1 c "65535 - c"] by simp
  also have "[c..<65535] = c # [Suc c..<65535]" using assms(2) by (rule upt_conv_Cons)
  finally show ?thesis .
qed

lemma probe_fails_body_1:
  "driver_body probe_fails_env 1 init_state =
     (Inl (OSError ''_PGMCALL''),
      init_state\<lparr>trace := [Ev_RSLOBJ2 RSLOBJ_TS_PGM ''QTQGESP'' ''QSYS'',
                            Ev_PGMCALL demo_ptr 1 PGMCALL_EXCP_NOSIGNAL],
                  ptr_attr := (ptr_attr init_state)(F_get_encoding_scheme \<mapsto> demo_ptr)\<rparr>)"
  by (simp add: driver_body_def get_encoding_scheme_def resolve_qtqgesp_def probe_fails_env_def
      demo_env_def init_state_def syscall_def Let_def)

lemma probe_fails_driver:
  "driver probe_fails_env init_state =
     (Inl (OSError ''_PGMCALL''),
      init_state\<lparr>trace := [Ev_RSLOBJ2 RSLOBJ_TS_PGM ''QTQGESP'' ''QSYS'',
                            Ev_PGMCALL demo_ptr 1 PGMCALL_EXCP_NOSIGNAL],
                  ptr_attr := (ptr_attr init_state)(F_get_encoding_scheme \<mapsto> demo_ptr)\<rparr>)"
proof -
  have "[1..<65535] = 1 # [Suc 1..<65535]" by (rule upt_conv_Cons) simp
  then show ?thesis
    by (simp add: driver_def probe_fails_body_1 [unfolded One_nat_def] del: upt_rec_numeral)
qed

text \<open>
  Claim C8, as the code has it. The driver loop has no handler: when the body raises for
  an identifier, after the identifiers before it went through, the driver ends with
  that exception in the state the body left, and no later identifier is processed.
\<close>

theorem driver_aborts_at_first_error:
  assumes "1 \<le> c" and "c < 65535"
    and "driver_loop env [1..<c] s = (Inr (), s1)"
    and "driver_body env c s1 = (Inl e, s2)"
  shows "driver env s = (Inl e, s2)"
  unfolding driver_def driver_range_split [OF assms(1,2)] driver_loop_append
  using assms(3,4) by simp

theorem driver_aborts_at_first_error_witness:
  "driver probe_fails_env init_state = driver_body probe_fails_env 1 init_state
   \<and> fst (driver_body probe_fails_env 1 init_state) = Inl (OSError ''_PGMCALL'')"
proof -
  have a: "driver_loop probe_fails_env [1..<1] init_state = (Inr (), init_state)" by simp
  have b: "driver_body probe_fails_env 1 init_state
      = (Inl (OSError ''_PGMCALL''), snd (driver_body probe_fails_env 1 init_state))"
    by (simp add: probe_fails_body_1 [unfolded One_nat_def])
  have c: "fst (driver_body probe_fails_env 1 init_state) = Inl (OSError ''_PGMCALL'')"
    by (simp add: probe_fails_body_1 [unfolded One_nat_def])
  have d: "driver probe_fails_env init_state
      = (Inl (OSError ''_PGMCALL''), snd (driver_body probe_fails_env 1 init_state))"
    using driver_aborts_at_first_error [OF _ _ a b] by simp
  from b c d show ?thesis by metis
qed

text \<open>
  Claim C8 as stated fails: when the probe fails for identifier 1, the driver ends with
  the exception after a single program call, so identifier 2 is never probed, although
  its body would have returned.
\<close>

theorem driver_isolation_counterexample:
  "fst (driver probe_fails_env init_state) = Inl (OSError ''_PGMCALL'')
   \<and> trace (snd (driver probe_fails_env init_state))
       = [Ev_RSLOBJ2 RSLOBJ_TS_PGM ''QTQGESP'' ''QSYS'', Ev_PGMCALL demo_ptr 1 PGMCALL_EXCP_NOSIGNAL]
   \<and> fst (driver_body probe_fails_env 2 (snd (driver probe_fails_env init_state))) = Inr ()"
  by (simp add: probe_fails_driver)
    (simp add: driver_body_def get_encoding_scheme_def resolve_qtqgesp_def probe_fails_env_def
      demo_env_def init_state_def syscall_def Let_def)

section \<open>Names in the text report\<close>

lemma txt_name_decode_error:
  assumes "utf16be_decode bs = None"
  shows "txt_name env u (Some bs) = (txt_except_ValueError env u, u)"
  using assms by (simp add: txt_name_def txt_try_def is_ValueError_def)

lemma txt_except_ValueError_cases:
  "txt_except_ValueError env u \<in>
     {Inl UnboundLocalError, Inl TypeError, Inr ''<control>'', Inr ''<unknown>''}"
  by (auto simp: txt_except_ValueError_def py_category_def split: option.splits list.splits)

lemma txt_name_never_error_marker:
  assumes "utf16be_decode bs = None"
  shows "fst (txt_name env u (Some bs)) \<noteq> Inr ''<error>''"
  using txt_except_ValueError_cases [of env u] by (auto simp: txt_name_decode_error [OF assms])

lemma txt_name_ok:
  assumes "txt_name env u out = (Inr name, u1)"
  shows "\<exists>bs. out = Some bs \<and> (utf16be_decode bs = None \<or> (\<exists>c. utf16be_decode bs = Some [c]))"
  using assms
  by (auto simp: txt_name_def txt_try_def py_name_def is_ValueError_def
      split: option.splits list.splits if_splits sum.splits)

lemma txt_loop_ok:
  assumes "fst (txt_loop env w cp t u fl) = Inr ()"
  shows "\<forall>out\<in>set t. \<exists>bs. out = Some bs
           \<and> (utf16be_decode bs = None \<or> (\<exists>c. utf16be_decode bs = Some [c]))"
  using assms
proof (induction t arbitrary: cp u fl)
  case Nil
  then show ?case by simp
next
  case (Cons out t)
  obtain r u1 where r: "txt_name env u out = (r, u1)" by (cases "txt_name env u out")
  with Cons.prems obtain name where name: "r = Inr name" by (cases r) auto
  from txt_name_ok [OF r [unfolded name]] obtain bs where
    bs: "out = Some bs" "utf16be_decode bs = None \<or> (\<exists>c. utf16be_decode bs = Some [c])" by blast
  from Cons.prems r name bs(1)
  have "fst (txt_loop env w (Suc cp) t u1 (fl @ [Line (fmt_str w cp (bytes_hex bs) name)])) = Inr ()"
    by simp
  from Cons.IH [OF this] bs show ?case by simp
qed

lemma txt_name_TypeError:
  assumes "utf16be_decode bs = Some v" and "length v \<noteq> 1"
  shows "fst (txt_name env u (Some bs)) = Inl TypeError"
  using assms
  by (cases v; cases "tl v") (auto simp: txt_name_def txt_try_def py_name_def is_ValueError_def)

lemma txt_loop_TypeError:
  assumes "fst (txt_loop env w cp pre u fl) = Inr ()"
    and "utf16be_decode bs = Some v" and "length v \<noteq> 1"
  shows "fst (txt_loop env w' cp' (pre @ Some bs # post) u fl') = Inl TypeError"
  using assms(1)
proof (induction pre arbitrary: cp cp' u fl fl')
  case Nil
  obtain r u1 where r: "txt_name env u (Some bs) = (r, u1)" by (cases "txt_name env u (Some bs)")
  with txt_name_TypeError [OF assms(2,3), of env u] have "r = Inl TypeError" by simp
  with r show ?case by simp
next
  case (Cons out pre)
  obtain r u1 where r: "txt_name env u out = (r, u1)" by (cases "txt_name env u out")
  with Cons.prems obtain name where name: "r = Inr name" by (cases r) auto
  from txt_name_ok [OF r [unfolded name]] obtain b where b: "out = Some b" by blast
  from Cons.prems r name b
  have "fst (txt_loop env w (Suc cp) pre u1 (fl @ [Line (fmt_str w cp (bytes_hex b) name)])) = Inr ()"
    by simp
  from Cons.IH [OF this] r name b show ?case by simp
qed

text \<open>
  Claim C9 fails on the code. \<open>UnicodeDecodeError\<close> is a \<open>ValueError\<close>, so
  the handler \<^verbatim>\<open>except ValueError\<close>, which comes first, takes the decode
  failure and the handler that would print \<^verbatim>\<open><error>\<close> is never reached
  (\<open>txt_name_never_error_marker\<close>). On a table whose second entry is a lone high
  surrogate the second line is named from the character of the first entry; on a table
  whose first entry is one, \<open>u\<close> is unbound and the function raises.
\<close>

theorem write_conv_txt_invalid_utf16:
  "write_conv_txt demo_env (Some [Some [0x00, 0x41], Some [0xD8, 0x00]]) [] =
     (Inr (),
      [Line (''0x0000'' @ [CHR 0x09] @ ''0x0041'' @ [CHR 0x09] @ ''LATIN CAPITAL LETTER A''),
       Line (''0x0001'' @ [CHR 0x09] @ ''0xd800'' @ [CHR 0x09] @ ''<unknown>'')])
   \<and> write_conv_txt demo_env (Some [Some [0xD8, 0x00]]) [] = (Inl UnboundLocalError, [])"
  by (simp add: write_conv_txt_def txt_name_def txt_try_def txt_except_ValueError_def py_name_def
      py_category_def is_ValueError_def demo_env_def fmt_str_def format_x_def zero_pad_def
      nat_digits.simps bytes_hex_def hexdigit_def Let_def numeral_3_eq_3)

text \<open>
  Claim C10. If \<open>write_conv_txt\<close> returns, every entry of the table either fails
  to decode or decodes to exactly one character; an entry that decodes to a string of
  any other length, after entries that went through, raises \<open>TypeError\<close>, which
  no handler takes; the empty byte sequence is such an entry.
\<close>

theorem write_conv_txt_total_only_if:
  "(fst (write_conv_txt env (Some t) fl) = Inr () \<longrightarrow>
      (\<forall>out\<in>set t. \<exists>bs. out = Some bs
          \<and> (utf16be_decode bs = None \<or> (\<exists>c. utf16be_decode bs = Some [c]))))
   \<and> (fst (write_conv_txt env (Some pre) fl) = Inr () \<and> utf16be_decode bs = Some v \<and> length v \<noteq> 1 \<longrightarrow>
      fst (write_conv_txt env (Some (pre @ Some bs # post)) fl) = Inl TypeError)
   \<and> fst (write_conv_txt env (Some [Some []]) fl) = Inl TypeError"
proof (intro conjI impI)
  assume "fst (write_conv_txt env (Some t) fl) = Inr ()"
  then show "\<forall>out\<in>set t. \<exists>bs. out = Some bs
          \<and> (utf16be_decode bs = None \<or> (\<exists>c. utf16be_decode bs = Some [c]))"
    unfolding write_conv_txt_def option.case by (rule txt_loop_ok)
next
  assume a: "fst (write_conv_txt env (Some pre) fl) = Inr () \<and> utf16be_decode bs = Some v \<and> length v \<noteq> 1"
  then have "fst (txt_loop env (if length pre = 256 then 2 else 4) 0 pre None fl) = Inr ()"
    by (simp add: write_conv_txt_def)
  from txt_loop_TypeError [OF this] a
  show "fst (write_conv_txt env (Some (pre @ Some bs # post)) fl) = Inl TypeError"
    unfolding write_conv_txt_def option.case by blast
next
  have "utf16be_decode [] = Some []" by simp
  from txt_name_TypeError [OF this, of env None]
  obtain u1 where "txt_name env None (Some []) = (Inl TypeError, u1)"
    by (cases "txt_name env None (Some [])") auto
  then show "fst (write_conv_txt env (Some [Some []]) fl) = Inl TypeError"
    by (simp add: write_conv_txt_def)
qed

theorem write_conv_txt_total_only_if_witness:
  "fst (write_conv_txt demo_env (Some [Some [0x00, 0x41]]) []) = Inr ()
   \<and> utf16be_decode [0x00, 0x41] = Some [0x41]
   \<and> fst (write_conv_txt demo_env (Some [Some [0x00, 0x41], Some [0x00, 0x41, 0x00, 0x42]]) []) = Inl TypeError
   \<and> fst (write_conv_txt demo_env (Some [Some []]) []) = Inl TypeError"
proof -
  have ok: "fst (write_conv_txt demo_env (Some [Some [0x00, 0x41]]) []) = Inr ()"
    by (simp add: write_conv_txt_def txt_name_def txt_try_def py_name_def demo_env_def)
  have d2: "utf16be_decode [0x00, 0x41, 0x00, 0x42] = Some [0x41, 0x42]" by simp
  note t = write_conv_txt_total_only_if [where env = demo_env and fl = "[]"
      and t = "[Some [0x00, 0x41]]" and pre = "[Some [0x00, 0x41]]"
      and bs = "[0x00, 0x41, 0x00, 0x42]" and v = "[0x41, 0x42]" and post = "[]"]
  from t ok d2 have "\<forall>out\<in>set [Some [0x00, 0x41 :: byte]]. \<exists>bs. out = Some bs
          \<and> (utf16be_decode bs = None \<or> (\<exists>c. utf16be_decode bs = Some [c]))"
    by blast
  then have "utf16be_decode [0x00, 0x41] = Some [0x41]" by simp
  moreover from t ok d2
  have "fst (write_conv_txt demo_env (Some ([Some [0x00, 0x41]] @ Some [0x00, 0x41, 0x00, 0x42] # [])) [])
      = Inl TypeError" by simp
  moreover from t have "fst (write_conv_txt demo_env (Some [Some []]) []) = Inl TypeError" by blast
  ultimately show ?thesis using ok by simp
qed

end
